theory Spec2Isabelle
  imports Complex_Main "HOL-Library.Word"
begin

section \<open>Data model of the generation service client\<close>

text \<open>
  The client consists of three asynchronous functions, \<open>enhancePrompt\<close>,
  \<open>generateAudio\<close> and \<open>generateVideo\<close>. Each is modelled as a function of
  the environment (the remote service and the browser platform) that returns the settled
  value of the promise together with the trace of calls that left the client.
  A rejected promise is \<open>Inl\<close> of the thrown value, a fulfilled one is \<open>Inr\<close>.
  Logging to the console is not modelled.

  Text that the client examines character by character or takes from the user as a
  prompt for \<open>enhancePrompt\<close> and \<open>generateAudio\<close> is a \<open>jsstring\<close>, the list of
  its UTF-16 code units. The other strings (messages, identifiers, URIs, encoded bytes)
  are only copied, compared with the empty string and concatenated; they are
  \<open>string\<close>s.
\<close>

type_synonym jsstring = "16 word list"

text \<open>The code units of a literal of the source, all of whose characters are ASCII.\<close>

definition utf16 :: "string \<Rightarrow> jsstring" where
  "utf16 s = map of_char s"

subsection \<open>Thrown values\<close>

text \<open>
  JavaScript may throw any value. \<open>Error m\<close> is an instance of \<open>Error\<close> (or of a
  subclass) whose \<open>message\<close> is \<open>m\<close>; \<open>NonError d\<close> is any other thrown value,
  \<open>d\<close> describing it.
\<close>

datatype thrown = Error (message: string) | NonError string

subsection \<open>Request parameters\<close>

text \<open>
  Modelled from the spec: the declarations of \<open>GenerationMode\<close>, \<open>ImageFile\<close>,
  \<open>GenerateVideoParams\<close> and \<open>GenerateAudioParams\<close>, whose file (\<open>types\<close>) is not
  among the sources. The modes are the four of the spec's data model; an image asset is
  its base64 payload with the name and the MIME type of its file; the fields and their
  optionality are those the functions read.
\<close>

datatype GenerationMode =
  TEXT_TO_VIDEO | FRAMES_TO_VIDEO | REFERENCES_TO_VIDEO | EXTEND_VIDEO

record File_js =
  file_name :: string
  file_type :: string

record ImageFile =
  img_file :: File_js
  base64 :: string

text \<open>
  \<open>Video\<close> is the descriptor type of the vendor library: every field is optional.
\<close>

record Video =
  uri :: "string option"
  videoBytes :: "string option"
  videoMimeType :: "string option"

text \<open>
  The fields of \<open>GenerateVideoParams\<close> that \<open>generateVideo\<close> reads. A field that may
  be \<open>null\<close> or \<open>undefined\<close> is an \<open>option\<close>; \<open>isLooping\<close> is read only for its
  truthiness, so a missing value is \<open>False\<close>.
\<close>

record GenerateVideoParams =
  prompt :: string
  model :: string
  aspectRatio :: string
  resolution :: string
  mode :: GenerationMode
  startFrame :: "ImageFile option"
  endFrame :: "ImageFile option"
  referenceImages :: "ImageFile list option"
  styleImage :: "ImageFile option"
  inputVideoObject :: "Video option"
  isLooping :: bool

subsection \<open>The vendor payload\<close>

record Image_js =
  imageBytes :: string
  mimeType :: string

datatype VideoGenerationReferenceType = ASSET | STYLE

record VideoGenerationReferenceImage =
  image :: Image_js
  referenceType :: VideoGenerationReferenceType

text \<open>
  The payload objects are built by assignment to untyped objects; a key that was never
  assigned is \<open>None\<close>.
\<close>

record config_js =
  numberOfVideos :: nat
  cfg_resolution :: string
  cfg_aspectRatio :: "string option"
  cfg_lastFrame :: "Image_js option"
  cfg_referenceImages :: "VideoGenerationReferenceImage list option"

record generateVideoPayload =
  pl_model :: string
  pl_config :: config_js
  pl_prompt :: "string option"
  pl_image :: "Image_js option"
  pl_video :: "Video option"

section \<open>Request normalisation in \<open>generateVideo\<close>\<close>

text \<open>The object literal \<open>{imageBytes: f.base64, mimeType: f.file.type}\<close>.\<close>

definition toImage :: "ImageFile \<Rightarrow> Image_js" where
  "toImage f = \<lparr>imageBytes = base64 f, mimeType = file_type (img_file f)\<rparr>"

text \<open>The body of the loop \<open>for (const img of params.referenceImages)\<close>: one push.\<close>

definition pushAsset ::
  "VideoGenerationReferenceImage list \<Rightarrow> ImageFile \<Rightarrow> VideoGenerationReferenceImage list"
where
  "pushAsset referenceImagesPayload img =
     referenceImagesPayload @ [\<lparr>image = toImage img, referenceType = ASSET\<rparr>]"

text \<open>
  The statements of \<open>generateVideo\<close> from the construction of \<open>config\<close> up to the end
  of the chain of tests on the mode, in the order of the source. The result is the payload
  handed to the submission, or the value thrown in the extend branch.
\<close>

definition buildPayload :: "GenerateVideoParams \<Rightarrow> thrown + generateVideoPayload" where
  "buildPayload params =
    (let config0 = \<lparr>numberOfVideos = 1, cfg_resolution = resolution params,
                     cfg_aspectRatio = None, cfg_lastFrame = None,
                     cfg_referenceImages = None\<rparr>;
         config = (if mode params \<noteq> EXTEND_VIDEO
                   then config0\<lparr>cfg_aspectRatio := Some (aspectRatio params)\<rparr>
                   else config0);
         payload0 = \<lparr>pl_model = model params, pl_config = config, pl_prompt = None,
                      pl_image = None, pl_video = None\<rparr>;
         payload = (if prompt params \<noteq> []
                    then payload0\<lparr>pl_prompt := Some (prompt params)\<rparr>
                    else payload0)
     in
       if mode params = FRAMES_TO_VIDEO then
         (let payload1 = (case startFrame params of
                            Some sf \<Rightarrow> payload\<lparr>pl_image := Some (toImage sf)\<rparr>
                          | None \<Rightarrow> payload);
              finalEndFrame = (if isLooping params then startFrame params
                               else endFrame params)
          in Inr (case finalEndFrame of
                    Some f \<Rightarrow>
                      payload1\<lparr>pl_config :=
                        (pl_config payload1)\<lparr>cfg_lastFrame := Some (toImage f)\<rparr>\<rparr>
                  | None \<Rightarrow> payload1))
       else if mode params = REFERENCES_TO_VIDEO then
         (let refs0 = (case referenceImages params of
                         Some imgs \<Rightarrow> foldl pushAsset [] imgs
                       | None \<Rightarrow> []);
              referenceImagesPayload =
                (case styleImage params of
                   Some s \<Rightarrow> refs0 @ [\<lparr>image = toImage s, referenceType = STYLE\<rparr>]
                 | None \<Rightarrow> refs0)
          in Inr (if length referenceImagesPayload > 0
                  then payload\<lparr>pl_config :=
                         (pl_config payload)\<lparr>cfg_referenceImages :=
                            Some referenceImagesPayload\<rparr>\<rparr>
                  else payload))
       else if mode params = EXTEND_VIDEO then
         (case inputVideoObject params of
            Some v \<Rightarrow> Inr (payload\<lparr>pl_video := Some v\<rparr>)
          | None \<Rightarrow>
              Inl (Error ''An input video object is required to extend a video.''))
       else Inr payload)"

section \<open>The environment: remote service and browser platform\<close>

subsection \<open>Long-running operations and the binary fetch\<close>

record GeneratedVideo =
  video :: "Video option"

record GenerateVideosResponse =
  generatedVideos :: "GeneratedVideo list option"

record operation =
  op_name :: string
  op_done :: bool
  op_response :: "GenerateVideosResponse option"

record Blob_js =
  blob_bytes :: string
  blob_type :: string

text \<open>A transport response; \<open>res_blob\<close> is what the promise of \<open>res.blob()\<close> settles to.\<close>

record Response_js =
  ok :: bool
  status :: nat
  statusText :: string
  res_blob :: "thrown + Blob_js"

subsection \<open>Content generation (text and speech)\<close>

text \<open>The two object literals passed to \<open>ai.models.generateContent\<close>.\<close>

datatype generateContentRequest =
    TextRequest (rq_model: string) (rq_contents: jsstring) (rq_systemInstruction: string)
      (rq_temperature: rat)
  | SpeechRequest (rq_model: string) (rq_text: jsstring) (rq_voiceName: string)

record Blob_inline =
  inl_data :: "string option"
  inl_mimeType :: "string option"

record Part =
  inlineData :: "Blob_inline option"

record Content =
  parts :: "Part list option"

record Candidate =
  content :: "Content option"

record GenerateContentResponse =
  text_js :: "jsstring option"
  candidates :: "Candidate list option"

record GenerateAudioParams =
  audio_prompt :: jsstring
  voice :: string

subsection \<open>Events and the environment\<close>

text \<open>
  What the client does to the outside world, in the order it happens: the calls to the
  remote service, the binary fetch, and the suspension between two polls (milliseconds).
\<close>

datatype event =
    GenerateContent generateContentRequest
  | GenerateVideos generateVideoPayload
  | Sleep nat
  | GetVideosOperation operation
  | Fetch string

text \<open>
  The environment answers each call as a function of the events so far and of the call's
  argument, which covers every deterministic service, stateful or not. An answer \<open>Inl\<close>
  is a rejected promise. \<open>decodeURIComponent\<close> and \<open>URL.createObjectURL\<close> are platform
  functions, taken as parameters; the first may throw (\<open>URIError\<close>). \<open>API_KEY\<close> is
  \<open>process.env.API_KEY\<close>. \<open>newGoogleGenAI\<close> is the constructor of the vendor's client,
  applied to the key: it calls nothing, and it either returns the client (\<open>None\<close>) or
  throws (\<open>Some\<close> of the thrown value), as the library for the browser does when no key
  is set.
\<close>

record env =
  API_KEY :: "string option"
  newGoogleGenAI :: "string option \<Rightarrow> thrown option"
  generateContent :: "event list \<Rightarrow> generateContentRequest \<Rightarrow> thrown + GenerateContentResponse"
  generateVideos :: "event list \<Rightarrow> generateVideoPayload \<Rightarrow> thrown + operation"
  getVideosOperation :: "event list \<Rightarrow> operation \<Rightarrow> thrown + operation"
  fetch :: "event list \<Rightarrow> string \<Rightarrow> thrown + Response_js"
  decodeURIComponent :: "string \<Rightarrow> thrown + string"
  createObjectURL :: "Blob_js \<Rightarrow> string"

section \<open>JavaScript primitives\<close>

text \<open>A string or \<open>undefined\<close> in a condition: truthy when present and non-empty.\<close>

definition truthy :: "string option \<Rightarrow> bool" where
  "truthy v = (case v of None \<Rightarrow> False | Some s \<Rightarrow> s \<noteq> [])"

text \<open>\<open>xs?.[0]\<close>: \<open>undefined\<close> when \<open>xs\<close> is nullish or empty.\<close>

definition first_js :: "'a list option \<Rightarrow> 'a option" where
  "first_js xs = (case xs of None \<Rightarrow> None | Some [] \<Rightarrow> None | Some (x # _) \<Rightarrow> Some x)"

text \<open>A value interpolated in a template literal: \<open>undefined\<close> prints as its name.\<close>

definition template :: "string option \<Rightarrow> string" where
  "template v = (case v of None \<Rightarrow> ''undefined'' | Some s \<Rightarrow> s)"

text \<open>A non-negative integer interpolated in a template literal: decimal digits.\<close>

definition digit :: "nat \<Rightarrow> char" where
  "digit d = ''0123456789'' ! d"

fun showNat :: "nat \<Rightarrow> string" where
  "showNat n = (if n < 10 then [digit n] else showNat (n div 10) @ [digit (n mod 10)])"

declare showNat.simps [simp del]

text \<open>
  The white space and line terminators of ECMAScript, all of them single code units:
  TAB, LF, VT, FF, CR, SPACE, NBSP, U+1680, U+2000 to U+200A, U+2028, U+2029, U+202F,
  U+205F, U+3000 and U+FEFF. \<open>String.prototype.trim\<close> removes them from both ends.
\<close>

definition isWhiteSpace :: "16 word \<Rightarrow> bool" where
  "isWhiteSpace c =
     (c \<in> set [0x0009, 0x000A, 0x000B, 0x000C, 0x000D, 0x0020, 0x00A0, 0x1680,
                0x2000, 0x2001, 0x2002, 0x2003, 0x2004, 0x2005, 0x2006, 0x2007,
                0x2008, 0x2009, 0x200A, 0x2028, 0x2029, 0x202F, 0x205F, 0x3000,
                0xFEFF])"

definition trim :: "jsstring \<Rightarrow> jsstring" where
  "trim s = rev (dropWhile isWhiteSpace (rev (dropWhile isWhiteSpace s)))"

text \<open>\<open>error instanceof Error ? error.message : 'An unknown error occurred.'\<close>\<close>

definition errorMessage :: "thrown \<Rightarrow> string" where
  "errorMessage error = (case error of Error m \<Rightarrow> m
                          | NonError _ \<Rightarrow> ''An unknown error occurred.'')"

section \<open>\<open>generateVideo\<close>\<close>

subsection \<open>The polling loop\<close>

text \<open>
  \<open>while (!operation.done) { await sleep(10000); operation = await getVideosOperation(operation) }\<close>.
  The loop has no bound: when the service never reports \<open>done\<close> the promise never
  settles, which is the value \<open>None\<close>. A rejected status fetch leaves the loop with the
  thrown value.
\<close>

partial_function (option) poll ::
  "env \<Rightarrow> event list \<Rightarrow> operation \<Rightarrow> ((thrown + operation) \<times> event list) option"
where
  "poll e tr operation =
     (if \<not> op_done operation then
        (case getVideosOperation e (tr @ [Sleep 10000]) operation of
           Inl x \<Rightarrow> Some (Inl x, tr @ [Sleep 10000, GetVideosOperation operation])
         | Inr operation' \<Rightarrow>
             poll e (tr @ [Sleep 10000, GetVideosOperation operation]) operation')
      else Some (Inr operation, tr))"

declare poll.simps [code]

subsection \<open>Inspection of the completed operation and the binary fetch\<close>

record generateVideoResult =
  out_objectUrl :: string
  out_blob :: Blob_js
  out_uri :: string
  out_video :: Video

text \<open>The statements after the loop, from \<open>if (operation?.response)\<close> to the end.\<close>

definition finish ::
  "env \<Rightarrow> event list \<Rightarrow> operation \<Rightarrow> (thrown + generateVideoResult) \<times> event list"
where
  "finish e tr operation =
     (case op_response operation of
        None \<Rightarrow> (Inl (Error ''No videos generated.''), tr)
      | Some response \<Rightarrow>
          (case generatedVideos response of
             None \<Rightarrow> (Inl (Error ''No videos were generated.''), tr)
           | Some [] \<Rightarrow> (Inl (Error ''No videos were generated.''), tr)
           | Some (firstVideo # _) \<Rightarrow>
               (case video firstVideo of
                  None \<Rightarrow> (Inl (Error ''Generated video is missing a URI.''), tr)
                | Some videoObject \<Rightarrow>
                    (case uri videoObject of
                       None \<Rightarrow> (Inl (Error ''Generated video is missing a URI.''), tr)
                     | Some u \<Rightarrow>
                         if u = []
                         then (Inl (Error ''Generated video is missing a URI.''), tr)
                         else
                           (case decodeURIComponent e u of
                              Inl x \<Rightarrow> (Inl x, tr)
                            | Inr url \<Rightarrow>
                                (let target = url @ ''&key='' @ template (API_KEY e);
                                     tr' = tr @ [Fetch target]
                                 in case fetch e tr target of
                                      Inl x \<Rightarrow> (Inl x, tr')
                                    | Inr res \<Rightarrow>
                                        if \<not> ok res
                                        then (Inl (Error (''Failed to fetch video: ''
                                                     @ showNat (status res) @ '' ''
                                                     @ statusText res)), tr')
                                        else
                                          (case res_blob res of
                                             Inl x \<Rightarrow> (Inl x, tr')
                                           | Inr videoBlob \<Rightarrow>
                                               (Inr \<lparr>out_objectUrl =
                                                       createObjectURL e videoBlob,
                                                     out_blob = videoBlob,
                                                     out_uri = url,
                                                     out_video = videoObject\<rparr>,
                                                tr'))))))))"

subsection \<open>The whole function\<close>

text \<open>
  Construction of the client, normalisation, submission, polling, inspection and fetch,
  in sequence. No statement of \<open>generateVideo\<close> is inside a \<open>try\<close>: a thrown value
  leaves the function as it is.
\<close>

definition generateVideo ::
  "env \<Rightarrow> GenerateVideoParams \<Rightarrow> ((thrown + generateVideoResult) \<times> event list) option"
where
  "generateVideo e params =
     (case newGoogleGenAI e (API_KEY e) of
        Some x \<Rightarrow> Some (Inl x, [])
      | None \<Rightarrow>
          (case buildPayload params of
             Inl x \<Rightarrow> Some (Inl x, [])
           | Inr payload \<Rightarrow>
               (case generateVideos e [] payload of
                  Inl x \<Rightarrow> Some (Inl x, [GenerateVideos payload])
                | Inr operation \<Rightarrow>
                    (case poll e [GenerateVideos payload] operation of
                       None \<Rightarrow> None
                     | Some (Inl x, tr) \<Rightarrow> Some (Inl x, tr)
                     | Some (Inr operation', tr) \<Rightarrow> Some (finish e tr operation')))))"

section \<open>\<open>generateAudio\<close>\<close>

record generateAudioResult =
  audio_objectUrl :: string

text \<open>The body of the \<open>try\<close> block after the response has arrived.\<close>

definition audioOfResponse :: "GenerateContentResponse \<Rightarrow> thrown + generateAudioResult" where
  "audioOfResponse response =
     (let inlineData' = Option.bind (Option.bind (Option.bind
                          (first_js (candidates response)) content)
                          (\<lambda>c. first_js (parts c))) inlineData;
          base64Audio = Option.bind inlineData' inl_data;
          mimeType' = Option.bind inlineData' inl_mimeType
      in if \<not> truthy base64Audio \<or> \<not> truthy mimeType'
         then Inl (Error ''Audio data not found in the API response.'')
         else Inr \<lparr>audio_objectUrl =
                     ''data:'' @ template mimeType' @ '';base64,'' @ template base64Audio\<rparr>)"

text \<open>
  The client is constructed first, outside the \<open>try\<close>: what the constructor throws is
  not wrapped. What the call or the inspection of its response throws is caught and
  re-thrown under the audio prefix.
\<close>

definition generateAudio ::
  "env \<Rightarrow> GenerateAudioParams \<Rightarrow> (thrown + generateAudioResult) \<times> event list"
where
  "generateAudio e params =
     (case newGoogleGenAI e (API_KEY e) of
        Some x \<Rightarrow> (Inl x, [])
      | None \<Rightarrow>
          (let request = SpeechRequest ''gemini-2.5-flash-preview-tts''
                           (audio_prompt params) (voice params);
               tried = (case generateContent e [] request of
                          Inl x \<Rightarrow> Inl x
                        | Inr response \<Rightarrow> audioOfResponse response)
           in (case tried of
                 Inl error \<Rightarrow>
                   Inl (Error (''Failed to generate audio: '' @ errorMessage error))
               | Inr r \<Rightarrow> Inr r,
               [GenerateContent request])))"

section \<open>\<open>enhancePrompt\<close>\<close>

definition systemInstruction :: string where
  "systemInstruction =
     ''You are an expert prompt writer for a text-to-video AI model. Your task is to take a user''
     @ [CHR 0x27] @
     ''s simple prompt and expand it into a rich, detailed, and cinematic description. Focus on visual details, camera angles, lighting, mood, and specific actions. The enhanced prompt should be a single, coherent paragraph. Do not add any conversational text, explanations, or quotes around the output. Just output the enhanced prompt text directly.''"

text \<open>
  \<open>response.text.trim()\<close> on a response without text throws a \<open>TypeError\<close>, an instance
  of \<open>Error\<close>; its message is the engine's (here V8's).
\<close>

definition trimOfUndefined :: thrown where
  "trimOfUndefined =
     Error (''Cannot read properties of undefined (reading '' @ [CHR 0x27] @ ''trim''
            @ [CHR 0x27] @ '')'')"

definition enhancedOfResponse :: "GenerateContentResponse \<Rightarrow> thrown + jsstring" where
  "enhancedOfResponse response =
     (case text_js response of
        None \<Rightarrow> Inl trimOfUndefined
      | Some t \<Rightarrow>
          (let enhancedPrompt = trim t
           in if enhancedPrompt = []
              then Inl (Error ''The model returned an empty enhancement.'')
              else Inr enhancedPrompt))"

text \<open>
  The test of the trimmed prompt comes first; then the client is constructed, outside the
  \<open>try\<close>; then the call and the inspection of its response, inside it.
\<close>

definition enhancePrompt :: "env \<Rightarrow> jsstring \<Rightarrow> (thrown + jsstring) \<times> event list" where
  "enhancePrompt e prompt' =
     (if trim prompt' = [] then (Inl (Error ''Prompt cannot be empty.''), [])
      else
        (case newGoogleGenAI e (API_KEY e) of
           Some x \<Rightarrow> (Inl x, [])
         | None \<Rightarrow>
             (let request = TextRequest ''gemini-2.5-flash''
                              (utf16 ''User prompt: '' @ [0x22] @ prompt' @ [0x22])
                              systemInstruction (8 / 10);
                  tried = (case generateContent e [] request of
                             Inl x \<Rightarrow> Inl x
                           | Inr response \<Rightarrow> enhancedOfResponse response)
              in (case tried of
                    Inl error \<Rightarrow>
                      Inl (Error (''Failed to enhance prompt: '' @ errorMessage error))
                  | Inr r \<Rightarrow> Inr r,
                  [GenerateContent request]))))"

section \<open>Observations on traces\<close>

text \<open>A status re-fetch, and a binary fetch, among the events of a run.\<close>

fun isRefetch :: "event \<Rightarrow> bool" where
  "isRefetch (GetVideosOperation _) = True"
| "isRefetch _ = False"

fun isFetch :: "event \<Rightarrow> bool" where
  "isFetch (Fetch _) = True"
| "isFetch _ = False"

text \<open>What the loop adds to a trace: suspensions and status re-fetches only.\<close>

fun isPollEvent :: "event \<Rightarrow> bool" where
  "isPollEvent (Sleep _) = True"
| "isPollEvent (GetVideosOperation _) = True"
| "isPollEvent _ = False"

text \<open>
  Reading a decimal numeral: the digits of a string and the number they denote.
\<close>

definition isDigit :: "char \<Rightarrow> bool" where
  "isDigit c = (c \<in> set ''0123456789'')"

definition digitVal :: "char \<Rightarrow> nat" where
  "digitVal c = of_char c - 48"

definition readNat :: "string \<Rightarrow> nat" where
  "readNat s = foldl (\<lambda>a c. 10 * a + digitVal c) 0 s"

text \<open>An input that is empty or consists of white space only.\<close>

definition whitespaceOnly :: "jsstring \<Rightarrow> bool" where
  "whitespaceOnly s = list_all isWhiteSpace s"

section \<open>A sample environment\<close>

text \<open>
  A platform function for the examples: percent-decoding of the escapes below \<open>%80\<close>,
  where it agrees with \<open>decodeURIComponent\<close>; a malformed escape throws the
  \<open>URIError\<close> of the platform, and so does, in this sample, an escape from \<open>%80\<close> on.
\<close>

definition hexval :: "char \<Rightarrow> nat option" where
  "hexval c =
     (let n = of_char c :: nat
      in if 48 \<le> n \<and> n \<le> 57 then Some (n - 48)
         else if 65 \<le> n \<and> n \<le> 70 then Some (n - 55)
         else if 97 \<le> n \<and> n \<le> 102 then Some (n - 87)
         else None)"

fun percentDecode :: "string \<Rightarrow> thrown + string" where
  "percentDecode [] = Inr []"
| "percentDecode [c] = (if c = CHR ''%'' then Inl (Error ''URI malformed'') else Inr [c])"
| "percentDecode [c, d] =
     (if c = CHR ''%'' then Inl (Error ''URI malformed'')
      else map_sum id (Cons c) (percentDecode [d]))"
| "percentDecode (c # h # l # rest) =
     (if c = CHR ''%'' then
        (case (hexval h, hexval l) of
           (Some a, Some b) \<Rightarrow>
             if 16 * a + b < 128
             then map_sum id (Cons (char_of (16 * a + b))) (percentDecode rest)
             else Inl (Error ''URI malformed'')
         | _ \<Rightarrow> Inl (Error ''URI malformed''))
      else map_sum id (Cons c) (percentDecode (h # l # rest)))"

text \<open>
  A service that answers the submission with \<open>submitted\<close>, the \<open>n\<close>-th status re-fetch
  with the \<open>n\<close>-th element of \<open>polls\<close>, every binary fetch with \<open>fetched\<close> and every
  content request with \<open>answered\<close>.
\<close>

text \<open>
  The constructor of the vendor's library for the browser: it throws when no key is set.
\<close>

definition browserSDK :: "string option \<Rightarrow> thrown option" where
  "browserSDK key =
     (case key of
        None \<Rightarrow> Some (Error ''An API Key must be set when running in a browser'')
      | Some _ \<Rightarrow> None)"

definition scripted ::
  "(thrown + GenerateContentResponse) \<Rightarrow> (thrown + operation) \<Rightarrow> (thrown + operation) list
     \<Rightarrow> (thrown + Response_js) \<Rightarrow> env"
where
  "scripted answered submitted polls fetched =
     \<lparr>API_KEY = Some ''KEY'',
      newGoogleGenAI = browserSDK,
      generateContent = (\<lambda>tr request. answered),
      generateVideos = (\<lambda>tr payload. submitted),
      getVideosOperation =
        (\<lambda>tr operation.
           (let n = length (filter isRefetch tr)
            in if n < length polls then polls ! n
               else Inl (Error ''Requested entity was not found.''))),
      fetch = (\<lambda>tr target. fetched),
      decodeURIComponent = percentDecode,
      createObjectURL = (\<lambda>b. ''blob:'' @ blob_bytes b)\<rparr>"

definition noContent :: "thrown + GenerateContentResponse" where
  "noContent = Inl (Error ''not used'')"

definition sampleParams :: "GenerationMode \<Rightarrow> GenerateVideoParams" where
  "sampleParams m =
     \<lparr>prompt = ''a cat'', model = ''veo-3.1-fast-generate-preview'', aspectRatio = ''16:9'',
      resolution = ''720p'', mode = m, startFrame = None, endFrame = None,
      referenceImages = None, styleImage = None, inputVideoObject = None,
      isLooping = False\<rparr>"

definition sampleImage :: "string \<Rightarrow> ImageFile" where
  "sampleImage n = \<lparr>img_file = \<lparr>file_name = n @ ''.png'', file_type = ''image/png''\<rparr>,
                     base64 = ''b64-'' @ n\<rparr>"

definition sampleVideo :: "string \<Rightarrow> Video" where
  "sampleVideo n =
     \<lparr>uri = Some (''https://host/files/'' @ n @ ''%3Adownload?alt=media''),
      videoBytes = None, videoMimeType = Some ''video/mp4''\<rparr>"

definition running :: operation where
  "running = \<lparr>op_name = ''operations/1'', op_done = False, op_response = None\<rparr>"

definition completed :: "GeneratedVideo list option \<Rightarrow> operation" where
  "completed vs = \<lparr>op_name = ''operations/1'', op_done = True,
                    op_response = Some \<lparr>generatedVideos = vs\<rparr>\<rparr>"

definition sampleBlob :: Blob_js where
  "sampleBlob = \<lparr>blob_bytes = ''MP4'', blob_type = ''video/mp4''\<rparr>"

definition okResponse :: Response_js where
  "okResponse = \<lparr>ok = True, status = 200, statusText = ''OK'', res_blob = Inr sampleBlob\<rparr>"

definition notFoundResponse :: Response_js where
  "notFoundResponse = \<lparr>ok = False, status = 404, statusText = ''Not Found'',
                        res_blob = Inr \<lparr>blob_bytes = [], blob_type = []\<rparr>\<rparr>"

definition audioResponse :: "Candidate list option \<Rightarrow> GenerateContentResponse" where
  "audioResponse cs = \<lparr>text_js = None, candidates = cs\<rparr>"

definition audioCandidate :: "string option \<Rightarrow> string option \<Rightarrow> Candidate" where
  "audioCandidate d m =
     \<lparr>content = Some \<lparr>parts = Some [\<lparr>inlineData = Some \<lparr>inl_data = d, inl_mimeType = m\<rparr>\<rparr>]\<rparr>\<rparr>"

section \<open>Properties of the request normalisation\<close>

text \<open>The loop over the reference images appends one asset entry per image, in order.\<close>

lemma foldl_pushAsset:
  "foldl pushAsset acc imgs =
     acc @ map (\<lambda>img. \<lparr>image = toImage img, referenceType = ASSET\<rparr>) imgs"
  by (induction imgs arbitrary: acc) (simp_all add: pushAsset_def)

text \<open>
  Claim C2. For a request in mode \<open>FRAMES_TO_VIDEO\<close> normalisation succeeds, and the
  \<open>lastFrame\<close> of the payload's config holds the bytes and the MIME type of the start
  frame when \<open>isLooping\<close> holds, whatever end frame was supplied, and those of the
  caller's end frame otherwise; the field is absent exactly when that effective end
  frame is absent.
\<close>

theorem frames_lastFrame:
  "mode params = FRAMES_TO_VIDEO \<Longrightarrow>
     \<exists>pl. buildPayload params = Inr pl \<and>
          cfg_lastFrame (pl_config pl) =
            map_option (\<lambda>f. \<lparr>imageBytes = base64 f, mimeType = file_type (img_file f)\<rparr>)
              (if isLooping params then startFrame params else endFrame params) \<and>
          (cfg_lastFrame (pl_config pl) = None \<longleftrightarrow>
             (if isLooping params then startFrame params else endFrame params) = None)"
  by (simp add: buildPayload_def toImage_def Let_def split: option.splits)

theorem frames_lastFrame_witness:
  "mode ((sampleParams FRAMES_TO_VIDEO)
           \<lparr>startFrame := Some \<lparr>img_file = \<lparr>file_name = ''first.png'', file_type = ''image/png''\<rparr>,
                                 base64 = ''Rmlyc3Q=''\<rparr>,
            endFrame := Some \<lparr>img_file = \<lparr>file_name = ''last.jpg'', file_type = ''image/jpeg''\<rparr>,
                               base64 = ''TGFzdA==''\<rparr>,
            isLooping := True\<rparr>) = FRAMES_TO_VIDEO \<and>
   (\<exists>pl. buildPayload ((sampleParams FRAMES_TO_VIDEO)
           \<lparr>startFrame := Some \<lparr>img_file = \<lparr>file_name = ''first.png'', file_type = ''image/png''\<rparr>,
                                 base64 = ''Rmlyc3Q=''\<rparr>,
            endFrame := Some \<lparr>img_file = \<lparr>file_name = ''last.jpg'', file_type = ''image/jpeg''\<rparr>,
                               base64 = ''TGFzdA==''\<rparr>,
            isLooping := True\<rparr>) = Inr pl \<and>
      cfg_lastFrame (pl_config pl) =
        Some \<lparr>imageBytes = ''Rmlyc3Q='', mimeType = ''image/png''\<rparr>) \<and>
   mode ((sampleParams FRAMES_TO_VIDEO)
           \<lparr>startFrame := Some \<lparr>img_file = \<lparr>file_name = ''first.png'', file_type = ''image/png''\<rparr>,
                                 base64 = ''Rmlyc3Q=''\<rparr>,
            endFrame := Some \<lparr>img_file = \<lparr>file_name = ''last.jpg'', file_type = ''image/jpeg''\<rparr>,
                               base64 = ''TGFzdA==''\<rparr>,
            isLooping := False\<rparr>) = FRAMES_TO_VIDEO \<and>
   (\<exists>pl. buildPayload ((sampleParams FRAMES_TO_VIDEO)
           \<lparr>startFrame := Some \<lparr>img_file = \<lparr>file_name = ''first.png'', file_type = ''image/png''\<rparr>,
                                 base64 = ''Rmlyc3Q=''\<rparr>,
            endFrame := Some \<lparr>img_file = \<lparr>file_name = ''last.jpg'', file_type = ''image/jpeg''\<rparr>,
                               base64 = ''TGFzdA==''\<rparr>,
            isLooping := False\<rparr>) = Inr pl \<and>
      cfg_lastFrame (pl_config pl) =
        Some \<lparr>imageBytes = ''TGFzdA=='', mimeType = ''image/jpeg''\<rparr>) \<and>
   mode ((sampleParams FRAMES_TO_VIDEO)
           \<lparr>startFrame := Some \<lparr>img_file = \<lparr>file_name = ''first.png'', file_type = ''image/png''\<rparr>,
                                 base64 = ''Rmlyc3Q=''\<rparr>\<rparr>) = FRAMES_TO_VIDEO \<and>
   (\<exists>pl. buildPayload ((sampleParams FRAMES_TO_VIDEO)
           \<lparr>startFrame := Some \<lparr>img_file = \<lparr>file_name = ''first.png'', file_type = ''image/png''\<rparr>,
                                 base64 = ''Rmlyc3Q=''\<rparr>\<rparr>) = Inr pl \<and>
      cfg_lastFrame (pl_config pl) = None)"
  using frames_lastFrame [of "(sampleParams FRAMES_TO_VIDEO)
           \<lparr>startFrame := Some \<lparr>img_file = \<lparr>file_name = ''first.png'', file_type = ''image/png''\<rparr>,
                                 base64 = ''Rmlyc3Q=''\<rparr>,
            endFrame := Some \<lparr>img_file = \<lparr>file_name = ''last.jpg'', file_type = ''image/jpeg''\<rparr>,
                               base64 = ''TGFzdA==''\<rparr>,
            isLooping := True\<rparr>"]
    frames_lastFrame [of "(sampleParams FRAMES_TO_VIDEO)
           \<lparr>startFrame := Some \<lparr>img_file = \<lparr>file_name = ''first.png'', file_type = ''image/png''\<rparr>,
                                 base64 = ''Rmlyc3Q=''\<rparr>,
            endFrame := Some \<lparr>img_file = \<lparr>file_name = ''last.jpg'', file_type = ''image/jpeg''\<rparr>,
                               base64 = ''TGFzdA==''\<rparr>,
            isLooping := False\<rparr>"]
    frames_lastFrame [of "(sampleParams FRAMES_TO_VIDEO)
           \<lparr>startFrame := Some \<lparr>img_file = \<lparr>file_name = ''first.png'', file_type = ''image/png''\<rparr>,
                                 base64 = ''Rmlyc3Q=''\<rparr>\<rparr>"]
  by (auto simp add: sampleParams_def)

text \<open>
  Claim C3. When the mode is not \<open>EXTEND_VIDEO\<close> normalisation succeeds and the config
  carries the request's aspect ratio; when the mode is \<open>EXTEND_VIDEO\<close> no payload that
  normalisation produces carries an aspect ratio.
\<close>

theorem aspectRatio_iff:
  "(mode params \<noteq> EXTEND_VIDEO \<longrightarrow>
      (\<exists>pl. buildPayload params = Inr pl \<and>
            cfg_aspectRatio (pl_config pl) = Some (aspectRatio params))) \<and>
   (mode params = EXTEND_VIDEO \<longrightarrow>
      (\<forall>pl. buildPayload params = Inr pl \<longrightarrow> cfg_aspectRatio (pl_config pl) = None))"
  by (cases "mode params") (auto simp add: buildPayload_def Let_def split: option.splits)

theorem aspectRatio_iff_witness:
  "(mode (sampleParams TEXT_TO_VIDEO) \<noteq> EXTEND_VIDEO \<and>
      (\<exists>pl. buildPayload (sampleParams TEXT_TO_VIDEO) = Inr pl \<and>
            cfg_aspectRatio (pl_config pl) = Some ''16:9'')) \<and>
   (mode ((sampleParams EXTEND_VIDEO)\<lparr>inputVideoObject := Some (sampleVideo ''a'')\<rparr>)
       = EXTEND_VIDEO \<and>
      (\<exists>pl. buildPayload ((sampleParams EXTEND_VIDEO)
                \<lparr>inputVideoObject := Some (sampleVideo ''a'')\<rparr>) = Inr pl \<and>
            cfg_aspectRatio (pl_config pl) = None))"
  using aspectRatio_iff [of "sampleParams TEXT_TO_VIDEO"]
    aspectRatio_iff [of "(sampleParams EXTEND_VIDEO)
                           \<lparr>inputVideoObject := Some (sampleVideo ''a'')\<rparr>"]
  by (simp add: sampleParams_def buildPayload_def)

text \<open>
  Claim C4. For a request in mode \<open>REFERENCES_TO_VIDEO\<close> normalisation succeeds; the
  reference list is one asset entry per supplied reference image, in the order of the
  input, followed by one style entry exactly when a style image is supplied, and it is
  attached to the config exactly when it is not empty.
\<close>

theorem references_list:
  "mode params = REFERENCES_TO_VIDEO \<Longrightarrow>
     \<exists>pl. buildPayload params = Inr pl \<and>
       (let refs = map (\<lambda>img. \<lparr>image = toImage img, referenceType = ASSET\<rparr>)
                     (case referenceImages params of None \<Rightarrow> [] | Some imgs \<Rightarrow> imgs)
                   @ (case styleImage params of None \<Rightarrow> []
                      | Some s \<Rightarrow> [\<lparr>image = toImage s, referenceType = STYLE\<rparr>])
        in cfg_referenceImages (pl_config pl) = (if refs = [] then None else Some refs))"
  by (auto simp add: buildPayload_def Let_def foldl_pushAsset split: option.splits)

theorem references_list_witness:
  "mode ((sampleParams REFERENCES_TO_VIDEO)
           \<lparr>referenceImages := Some [sampleImage ''a'', sampleImage ''b''],
            styleImage := Some (sampleImage ''s'')\<rparr>) = REFERENCES_TO_VIDEO \<and>
   (\<exists>pl. buildPayload ((sampleParams REFERENCES_TO_VIDEO)
           \<lparr>referenceImages := Some [sampleImage ''a'', sampleImage ''b''],
            styleImage := Some (sampleImage ''s'')\<rparr>) = Inr pl \<and>
      cfg_referenceImages (pl_config pl) =
        Some [\<lparr>image = \<lparr>imageBytes = ''b64-a'', mimeType = ''image/png''\<rparr>,
                referenceType = ASSET\<rparr>,
              \<lparr>image = \<lparr>imageBytes = ''b64-b'', mimeType = ''image/png''\<rparr>,
                referenceType = ASSET\<rparr>,
              \<lparr>image = \<lparr>imageBytes = ''b64-s'', mimeType = ''image/png''\<rparr>,
                referenceType = STYLE\<rparr>])"
  using references_list [of "(sampleParams REFERENCES_TO_VIDEO)
           \<lparr>referenceImages := Some [sampleImage ''a'', sampleImage ''b''],
            styleImage := Some (sampleImage ''s'')\<rparr>"]
  by (simp add: sampleParams_def sampleImage_def toImage_def)

text \<open>
  Claim C5. Once the client is constructed, a request in mode \<open>EXTEND_VIDEO\<close> without
  an input video object makes \<open>generateVideo\<close> reject with the validation error, and
  the trace of the run is empty: nothing was submitted, polled or fetched.
\<close>

theorem extend_requires_video:
  "newGoogleGenAI e (API_KEY e) = None \<Longrightarrow> mode params = EXTEND_VIDEO \<Longrightarrow>
   inputVideoObject params = None \<Longrightarrow>
     generateVideo e params =
       Some (Inl (Error ''An input video object is required to extend a video.''), [])"
  by (simp add: generateVideo_def buildPayload_def Let_def)

theorem extend_requires_video_witness:
  "newGoogleGenAI (scripted noContent (Inr running) [] (Inr okResponse))
     (API_KEY (scripted noContent (Inr running) [] (Inr okResponse))) = None \<and>
   mode (sampleParams EXTEND_VIDEO) = EXTEND_VIDEO \<and>
   inputVideoObject (sampleParams EXTEND_VIDEO) = None \<and>
   generateVideo (scripted noContent (Inr running) [] (Inr okResponse))
       (sampleParams EXTEND_VIDEO) =
     Some (Inl (Error ''An input video object is required to extend a video.''), [])"
  using extend_requires_video [of "scripted noContent (Inr running) [] (Inr okResponse)"
          "sampleParams EXTEND_VIDEO"]
  by (simp add: sampleParams_def scripted_def browserSDK_def)

section \<open>Properties of the polling loop\<close>

text \<open>Evaluations used by the examples.\<close>

lemma sample_uri_decoded:
  "percentDecode ''https://host/files/a%3Adownload?alt=media'' =
     Inr ''https://host/files/a:download?alt=media''"
  by code_simp

lemma sample_payload:
  "buildPayload (sampleParams TEXT_TO_VIDEO) =
     Inr \<lparr>pl_model = ''veo-3.1-fast-generate-preview'',
          pl_config = \<lparr>numberOfVideos = 1, cfg_resolution = ''720p'',
            cfg_aspectRatio = Some ''16:9'', cfg_lastFrame = None,
            cfg_referenceImages = None\<rparr>,
          pl_prompt = Some ''a cat'', pl_image = None, pl_video = None\<rparr>"
  by (simp add: buildPayload_def sampleParams_def)

lemma sample_client:
  "newGoogleGenAI (scripted answered submitted polls fetched)
     (API_KEY (scripted answered submitted polls fetched)) = None"
  by (simp add: scripted_def browserSDK_def)

lemmas poll_induct = poll.raw_induct [rotated 1, consumes 1, case_names step]

lemma poll_trace_aux:
  "poll e tr operation = Some y \<Longrightarrow> \<exists>ext. snd y = tr @ ext \<and> list_all isPollEvent ext"
proof (induct rule: poll_induct)
  case (step poll' e tr operation y)
  show ?case
  proof (cases "op_done operation")
    case True
    with step(2) show ?thesis by auto
  next
    case False
    show ?thesis
    proof (cases "getVideosOperation e (tr @ [Sleep 10000]) operation")
      case (Inl x)
      with False step(2) show ?thesis by auto
    next
      case (Inr operation')
      with False step(2) have "poll' e (tr @ [Sleep 10000, GetVideosOperation operation]) operation' = Some y"
        by simp
      then have "\<exists>ext. snd y = (tr @ [Sleep 10000, GetVideosOperation operation]) @ ext \<and> list_all isPollEvent ext"
        by (rule step(1))
      then obtain ext where "snd y = tr @ ([Sleep 10000, GetVideosOperation operation] @ ext)" "list_all isPollEvent ext"
        by auto
      then have "snd y = tr @ ([Sleep 10000, GetVideosOperation operation] @ ext) \<and> list_all isPollEvent ([Sleep 10000, GetVideosOperation operation] @ ext)"
        by simp
      then show ?thesis by blast
    qed
  qed
qed

text \<open>How the loop ends.\<close>

lemma poll_end_aux:
  "poll e tr operation = Some y \<Longrightarrow>
     (case fst y of
        Inl x \<Rightarrow> (\<exists>tr1 op'. snd y = tr1 @ [GetVideosOperation op'] \<and>
                     getVideosOperation e tr1 op' = Inl x)
      | Inr opd \<Rightarrow> op_done opd \<and>
          ((snd y = tr \<and> opd = operation) \<or>
           (\<exists>tr1 op'. snd y = tr1 @ [GetVideosOperation op'] \<and>
                     getVideosOperation e tr1 op' = Inr opd)))"
proof (induct rule: poll_induct)
  case (step poll' e tr operation y)
  show ?case
  proof (cases "op_done operation")
    case True
    with step(2) show ?thesis by auto
  next
    case False
    show ?thesis
    proof (cases "getVideosOperation e (tr @ [Sleep 10000]) operation")
      case (Inl x)
      with False step(2) have y: "y = (Inl x, (tr @ [Sleep 10000]) @ [GetVideosOperation operation])"
        by auto
      show ?thesis unfolding y using Inl by (simp del: append_assoc)
    next
      case (Inr operation')
      with False step(2) have rec: "poll' e (tr @ [Sleep 10000, GetVideosOperation operation]) operation' = Some y"
        by simp
      show ?thesis
      proof (cases "fst y")
        case (Inl x)
        with step(1)[OF rec] show ?thesis by simp
      next
        case r: (Inr opd)
        with step(1)[OF rec] have d: "op_done opd" and
          alt: "(snd y = tr @ [Sleep 10000, GetVideosOperation operation] \<and> opd = operation') \<or>
           (\<exists>tr1 op'. snd y = tr1 @ [GetVideosOperation op'] \<and>
                     getVideosOperation e tr1 op' = Inr opd)"
          by simp_all
        from alt have "\<exists>tr1 op'. snd y = tr1 @ [GetVideosOperation op'] \<and>
                     getVideosOperation e tr1 op' = Inr opd"
        proof
          assume a: "snd y = tr @ [Sleep 10000, GetVideosOperation operation] \<and> opd = operation'"
          then have "snd y = (tr @ [Sleep 10000]) @ [GetVideosOperation operation]" by simp
          moreover from a Inr have "getVideosOperation e (tr @ [Sleep 10000]) operation = Inr opd"
            by simp
          ultimately show ?thesis by blast
        qed
        with d r show ?thesis by simp
      qed
    qed
  qed
qed


lemma poll_trace:
  "poll e tr operation = Some (r, tr') \<Longrightarrow> \<exists>ext. tr' = tr @ ext \<and> list_all isPollEvent ext"
  using poll_trace_aux [of e tr operation "(r, tr')"] by simp

lemma poll_rejected:
  "poll e tr operation = Some (Inl x, tr') \<Longrightarrow>
     \<exists>tr1 op'. tr' = tr1 @ [GetVideosOperation op'] \<and> getVideosOperation e tr1 op' = Inl x"
  using poll_end_aux [of e tr operation "(Inl x, tr')"] by simp

lemma poll_done:
  "poll e tr operation = Some (Inr opd, tr') \<Longrightarrow>
     op_done opd \<and>
     ((tr' = tr \<and> opd = operation) \<or>
      (\<exists>tr1 op'. tr' = tr1 @ [GetVideosOperation op'] \<and> getVideosOperation e tr1 op' = Inr opd))"
  using poll_end_aux [of e tr operation "(Inr opd, tr')"] by simp

lemma no_fetch_while_polling:
  assumes "poll e [GenerateVideos pl] operation = Some (r, tr)"
  shows "\<not> list_ex isFetch tr"
proof -
  from poll_trace [OF assms] obtain ext where
    tr: "tr = [GenerateVideos pl] @ ext" and ext: "list_all isPollEvent ext" by blast
  have "\<And>ev. isPollEvent ev \<Longrightarrow> \<not> isFetch ev"
    by (case_tac ev) simp_all
  with ext have "\<not> list_ex isFetch ext"
    by (auto simp add: list_all_iff list_ex_iff)
  with tr show ?thesis by simp
qed

lemma generateVideo_polled:
  assumes "newGoogleGenAI e (API_KEY e) = None"
    and "buildPayload params = Inr pl" and "generateVideos e [] pl = Inr op0"
    and "poll e [GenerateVideos pl] op0 = Some (Inr opd, tr)"
  shows "generateVideo e params = Some (finish e tr opd)"
  using assms by (simp add: generateVideo_def)

text \<open>
  Claim C7. When the loop ends with a completed operation that has a response, a response
  with no generated videos makes \<open>generateVideo\<close> reject with ``No videos were
  generated.'', and a first generated video without a usable URI makes it reject with
  ``Generated video is missing a URI.''; the trace of the run is the trace of the loop, in
  which there is no binary fetch.
\<close>

theorem done_without_video:
  assumes "buildPayload params = Inr pl" and "generateVideos e [] pl = Inr op0"
    and "poll e [GenerateVideos pl] op0 = Some (Inr opd, tr)"
    and "op_response opd = Some resp"
    and client: "newGoogleGenAI e (API_KEY e) = None"
  shows "(generatedVideos resp = None \<or> generatedVideos resp = Some [] \<longrightarrow>
            generateVideo e params = Some (Inl (Error ''No videos were generated.''), tr)) \<and>
         (\<forall>gv rest. generatedVideos resp = Some (gv # rest) \<and>
                     \<not> truthy (Option.bind (video gv) uri) \<longrightarrow>
            generateVideo e params =
              Some (Inl (Error ''Generated video is missing a URI.''), tr)) \<and>
         \<not> list_ex isFetch tr"
proof -
  have run: "generateVideo e params = Some (finish e tr opd)"
    using client assms(1-3) by (rule generateVideo_polled)
  have a: "generatedVideos resp = None \<or> generatedVideos resp = Some [] \<Longrightarrow>
             finish e tr opd = (Inl (Error ''No videos were generated.''), tr)"
    using assms(4) by (auto simp add: finish_def)
  have b: "\<And>gv rest. generatedVideos resp = Some (gv # rest) \<Longrightarrow>
             \<not> truthy (Option.bind (video gv) uri) \<Longrightarrow>
             finish e tr opd = (Inl (Error ''Generated video is missing a URI.''), tr)"
    using assms(4) by (auto simp add: finish_def truthy_def split: option.splits)
  have c: "\<not> list_ex isFetch tr"
    using assms(3) by (rule no_fetch_while_polling)
  from run a b c show ?thesis by auto
qed

theorem done_without_video_witness:
  "generateVideo (scripted noContent (Inr running) [Inr (completed (Some []))] (Inr okResponse))
       (sampleParams TEXT_TO_VIDEO) =
     Some (Inl (Error ''No videos were generated.''),
           [GenerateVideos \<lparr>pl_model = ''veo-3.1-fast-generate-preview'',
               pl_config = \<lparr>numberOfVideos = 1, cfg_resolution = ''720p'',
                 cfg_aspectRatio = Some ''16:9'', cfg_lastFrame = None,
                 cfg_referenceImages = None\<rparr>,
               pl_prompt = Some ''a cat'', pl_image = None, pl_video = None\<rparr>,
            Sleep 10000, GetVideosOperation running]) \<and>
   generateVideo (scripted noContent
         (Inr (completed (Some [\<lparr>video = Some \<lparr>uri = None, videoBytes = Some ''AAAA'',
                                   videoMimeType = Some ''video/mp4''\<rparr>\<rparr>])))
         [] (Inr okResponse))
       (sampleParams TEXT_TO_VIDEO) =
     Some (Inl (Error ''Generated video is missing a URI.''),
           [GenerateVideos \<lparr>pl_model = ''veo-3.1-fast-generate-preview'',
               pl_config = \<lparr>numberOfVideos = 1, cfg_resolution = ''720p'',
                 cfg_aspectRatio = Some ''16:9'', cfg_lastFrame = None,
                 cfg_referenceImages = None\<rparr>,
               pl_prompt = Some ''a cat'', pl_image = None, pl_video = None\<rparr>])"
proof -
  let ?pl = "\<lparr>pl_model = ''veo-3.1-fast-generate-preview'',
               pl_config = \<lparr>numberOfVideos = 1, cfg_resolution = ''720p'',
                 cfg_aspectRatio = Some ''16:9'', cfg_lastFrame = None,
                 cfg_referenceImages = None\<rparr>,
               pl_prompt = Some ''a cat'', pl_image = None, pl_video = None\<rparr>"
  let ?e1 = "scripted noContent (Inr running) [Inr (completed (Some []))] (Inr okResponse)"
  let ?gv = "\<lparr>video = Some \<lparr>uri = None, videoBytes = Some ''AAAA'',
                                   videoMimeType = Some ''video/mp4''\<rparr>\<rparr>"
  let ?e2 = "scripted noContent (Inr (completed (Some [?gv]))) [] (Inr okResponse)"
  have p: "buildPayload (sampleParams TEXT_TO_VIDEO) = Inr ?pl"
    by (simp add: buildPayload_def sampleParams_def)
  have s1: "generateVideos ?e1 [] ?pl = Inr running"
    by (simp add: scripted_def)
  have l1: "poll ?e1 [GenerateVideos ?pl] running =
              Some (Inr (completed (Some [])),
                    [GenerateVideos ?pl, Sleep 10000, GetVideosOperation running])"
    by (simp add: poll.simps scripted_def running_def completed_def)
  have r1: "op_response (completed (Some [])) = Some \<lparr>generatedVideos = Some []\<rparr>"
    by (simp add: completed_def)
  have s2: "generateVideos ?e2 [] ?pl = Inr (completed (Some [?gv]))"
    by (simp add: scripted_def)
  have l2: "poll ?e2 [GenerateVideos ?pl] (completed (Some [?gv])) =
              Some (Inr (completed (Some [?gv])), [GenerateVideos ?pl])"
    by (simp add: poll.simps completed_def)
  have r2: "op_response (completed (Some [?gv])) = Some \<lparr>generatedVideos = Some [?gv]\<rparr>"
    by (simp add: completed_def)
  from done_without_video [OF p s1 l1 r1 sample_client]
    done_without_video [OF p s2 l2 r2 sample_client]
  show ?thesis by (simp add: truthy_def)
qed

text \<open>
  The interpolation of a number is its decimal numeral: digits only, denoting the number,
  without a leading zero.
\<close>

lemma digit_isDigit: "d < 10 \<Longrightarrow> isDigit (digit d)"
proof -
  assume "d < 10"
  then have "d = 0 \<or> d = 1 \<or> d = 2 \<or> d = 3 \<or> d = 4 \<or> d = 5 \<or> d = 6 \<or> d = 7 \<or> d = 8 \<or> d = 9"
    by arith
  then show ?thesis
    by (auto simp add: digit_def isDigit_def)
qed

lemma digitVal_digit: "d < 10 \<Longrightarrow> digitVal (digit d) = d"
proof -
  assume "d < 10"
  then have "d = 0 \<or> d = 1 \<or> d = 2 \<or> d = 3 \<or> d = 4 \<or> d = 5 \<or> d = 6 \<or> d = 7 \<or> d = 8 \<or> d = 9"
    by arith
  then show ?thesis
    by (auto simp add: digit_def digitVal_def)
qed

lemma digit_zero_iff: "d < 10 \<Longrightarrow> digit d = CHR ''0'' \<longleftrightarrow> d = 0"
proof -
  assume "d < 10"
  then have "d = 0 \<or> d = 1 \<or> d = 2 \<or> d = 3 \<or> d = 4 \<or> d = 5 \<or> d = 6 \<or> d = 7 \<or> d = 8 \<or> d = 9"
    by arith
  then show ?thesis
    by (auto simp add: digit_def)
qed

lemma readNat_snoc: "readNat (s @ [c]) = 10 * readNat s + digitVal c"
  by (simp add: readNat_def)

lemma showNat_nonempty: "showNat n \<noteq> []"
  by (subst showNat.simps) simp

lemma showNat_digits: "list_all isDigit (showNat n)"
proof (induction n rule: showNat.induct)
  case (1 n)
  show ?case
  proof (cases "n < 10")
    case True
    then show ?thesis by (subst showNat.simps) (simp add: digit_isDigit)
  next
    case False
    with 1 show ?thesis by (subst showNat.simps) (simp add: digit_isDigit)
  qed
qed

lemma readNat_showNat: "readNat (showNat n) = n"
proof (induction n rule: showNat.induct)
  case (1 n)
  show ?case
  proof (cases "n < 10")
    case True
    then show ?thesis
      by (subst showNat.simps) (simp add: readNat_def digitVal_digit)
  next
    case False
    with 1 have "readNat (showNat (n div 10)) = n div 10" by simp
    with False show ?thesis
      by (subst showNat.simps) (simp add: readNat_snoc digitVal_digit)
  qed
qed

lemma showNat_canonical: "hd (showNat n) = CHR ''0'' \<Longrightarrow> showNat n = ''0''"
proof (induction n rule: showNat.induct)
  case (1 n)
  show ?case
  proof (cases "n < 10")
    case True
    with 1(2) have "digit n = CHR ''0''" by (subst (asm) showNat.simps) simp
    with True have "n = 0" by (simp add: digit_zero_iff)
    then show ?thesis by (subst showNat.simps) (simp add: digit_def)
  next
    case False
    with 1(2) have "hd (showNat (n div 10)) = CHR ''0''"
      by (subst (asm) showNat.simps) (simp add: showNat_nonempty)
    with 1(1) False have "showNat (n div 10) = ''0''" by simp
    then have "readNat (showNat (n div 10)) = 0" by (simp add: readNat_def digitVal_def)
    then have "n div 10 = 0" by (simp add: readNat_showNat)
    with False show ?thesis by simp
  qed
qed

text \<open>
  Claim C9. When the completed operation's first video has a non-empty URI that the
  platform decodes to \<open>url\<close>, and the API key is \<open>key\<close>, the next and last event of the
  run is the fetch of \<open>url\<close> followed by \<open>&key=\<close> and \<open>key\<close>; and when the transport
  response to it is not \<open>ok\<close>, \<open>generateVideo\<close> rejects with the error whose message is
  ``Failed to fetch video: '', the decimal numeral of the status, a space and the status
  text.
\<close>

theorem fetch_decoded_uri_with_key:
  assumes "buildPayload params = Inr pl" and "generateVideos e [] pl = Inr op0"
    and "poll e [GenerateVideos pl] op0 = Some (Inr opd, tr)"
    and "op_response opd = Some resp" and "generatedVideos resp = Some (gv # rest)"
    and "video gv = Some v" and "uri v = Some u" and "u \<noteq> []"
    and "decodeURIComponent e u = Inr url"
    and client: "newGoogleGenAI e (API_KEY e) = None"
    and key: "API_KEY e = Some key"
  shows "\<exists>r. generateVideo e params = Some (r, tr @ [Fetch (url @ ''&key='' @ key)]) \<and>
             (\<forall>res. fetch e tr (url @ ''&key='' @ key) = Inr res \<and> \<not> ok res \<longrightarrow>
                (\<exists>digits.
                   r = Inl (Error (''Failed to fetch video: '' @ digits @ '' ''
                                   @ statusText res)) \<and>
                   digits \<noteq> [] \<and> list_all isDigit digits \<and>
                   readNat digits = status res \<and>
                   (hd digits = CHR ''0'' \<longrightarrow> digits = ''0'')))"
proof -
  have run: "generateVideo e params = Some (finish e tr opd)"
    using client assms(1-3) by (rule generateVideo_polled)
  have t: "template (API_KEY e) = key"
    using key by (simp add: template_def)
  have tr: "snd (finish e tr opd) = tr @ [Fetch (url @ ''&key='' @ key)]"
    using assms(4-9) t by (simp add: finish_def Let_def split: sum.splits)
  have msg: "\<And>res. fetch e tr (url @ ''&key='' @ key) = Inr res \<Longrightarrow> \<not> ok res \<Longrightarrow>
      fst (finish e tr opd) =
        Inl (Error (''Failed to fetch video: '' @ showNat (status res) @ '' ''
                    @ statusText res))"
    using assms(4-9) t by (simp add: finish_def Let_def)
  have dec: "\<And>n. showNat n \<noteq> [] \<and> list_all isDigit (showNat n) \<and>
      readNat (showNat n) = n \<and> (hd (showNat n) = CHR ''0'' \<longrightarrow> showNat n = ''0'')"
    using showNat_nonempty showNat_digits readNat_showNat showNat_canonical by blast
  show ?thesis
  proof (intro exI [of _ "fst (finish e tr opd)"] conjI allI impI)
    show "generateVideo e params =
            Some (fst (finish e tr opd), tr @ [Fetch (url @ ''&key='' @ key)])"
      using run tr by (cases "finish e tr opd") simp
  next
    fix res
    assume a: "fetch e tr (url @ ''&key='' @ key) = Inr res \<and> \<not> ok res"
    then have "fst (finish e tr opd) =
        Inl (Error (''Failed to fetch video: '' @ showNat (status res) @ '' ''
                    @ statusText res))"
      using msg by blast
    with dec [of "status res"]
    show "\<exists>digits.
            fst (finish e tr opd) =
              Inl (Error (''Failed to fetch video: '' @ digits @ '' '' @ statusText res)) \<and>
            digits \<noteq> [] \<and> list_all isDigit digits \<and> readNat digits = status res \<and>
            (hd digits = CHR ''0'' \<longrightarrow> digits = ''0'')"
      by blast
  qed
qed

theorem fetch_decoded_uri_with_key_witness:
  "(\<exists>r. generateVideo (scripted noContent (Inr (completed (Some [\<lparr>video = Some (sampleVideo ''a'')\<rparr>]))) []
         (Inr notFoundResponse)) (sampleParams TEXT_TO_VIDEO) =
          Some (r, [GenerateVideos \<lparr>pl_model = ''veo-3.1-fast-generate-preview'',
               pl_config = \<lparr>numberOfVideos = 1, cfg_resolution = ''720p'',
                 cfg_aspectRatio = Some ''16:9'', cfg_lastFrame = None,
                 cfg_referenceImages = None\<rparr>,
               pl_prompt = Some ''a cat'', pl_image = None, pl_video = None\<rparr>,
                    Fetch ''https://host/files/a:download?alt=media&key=KEY'']) \<and>
        (\<exists>digits. r = Inl (Error (''Failed to fetch video: '' @ digits @ '' Not Found'')) \<and>
                  list_all isDigit digits \<and> readNat digits = 404)) \<and>
   generateVideo (scripted noContent (Inr (completed (Some [\<lparr>video = Some (sampleVideo ''a'')\<rparr>]))) []
         (Inr notFoundResponse)) (sampleParams TEXT_TO_VIDEO) =
     Some (Inl (Error ''Failed to fetch video: 404 Not Found''),
           [GenerateVideos \<lparr>pl_model = ''veo-3.1-fast-generate-preview'',
               pl_config = \<lparr>numberOfVideos = 1, cfg_resolution = ''720p'',
                 cfg_aspectRatio = Some ''16:9'', cfg_lastFrame = None,
                 cfg_referenceImages = None\<rparr>,
               pl_prompt = Some ''a cat'', pl_image = None, pl_video = None\<rparr>,
            Fetch ''https://host/files/a:download?alt=media&key=KEY'']) \<and>
   (\<exists>r. generateVideo ((scripted noContent (Inr (completed (Some [\<lparr>video = Some (sampleVideo ''a'')\<rparr>]))) []
         (Inr \<lparr>ok = False, status = 503, statusText = ''Service Unavailable'',
               res_blob = Inr sampleBlob\<rparr>))\<lparr>API_KEY := Some ''SECRET-2''\<rparr>) (sampleParams TEXT_TO_VIDEO) =
          Some (r, [GenerateVideos \<lparr>pl_model = ''veo-3.1-fast-generate-preview'',
               pl_config = \<lparr>numberOfVideos = 1, cfg_resolution = ''720p'',
                 cfg_aspectRatio = Some ''16:9'', cfg_lastFrame = None,
                 cfg_referenceImages = None\<rparr>,
               pl_prompt = Some ''a cat'', pl_image = None, pl_video = None\<rparr>,
                    Fetch ''https://host/files/a:download?alt=media&key=SECRET-2'']) \<and>
        (\<exists>digits. r = Inl (Error (''Failed to fetch video: '' @ digits
                                   @ '' Service Unavailable'')) \<and>
                  list_all isDigit digits \<and> readNat digits = 503)) \<and>
   generateVideo ((scripted noContent (Inr (completed (Some [\<lparr>video = Some (sampleVideo ''a'')\<rparr>]))) []
         (Inr \<lparr>ok = False, status = 503, statusText = ''Service Unavailable'',
               res_blob = Inr sampleBlob\<rparr>))\<lparr>API_KEY := Some ''SECRET-2''\<rparr>) (sampleParams TEXT_TO_VIDEO) =
     Some (Inl (Error ''Failed to fetch video: 503 Service Unavailable''),
           [GenerateVideos \<lparr>pl_model = ''veo-3.1-fast-generate-preview'',
               pl_config = \<lparr>numberOfVideos = 1, cfg_resolution = ''720p'',
                 cfg_aspectRatio = Some ''16:9'', cfg_lastFrame = None,
                 cfg_referenceImages = None\<rparr>,
               pl_prompt = Some ''a cat'', pl_image = None, pl_video = None\<rparr>,
            Fetch ''https://host/files/a:download?alt=media&key=SECRET-2''])"
proof -
  let ?pl = "\<lparr>pl_model = ''veo-3.1-fast-generate-preview'',
               pl_config = \<lparr>numberOfVideos = 1, cfg_resolution = ''720p'',
                 cfg_aspectRatio = Some ''16:9'', cfg_lastFrame = None,
                 cfg_referenceImages = None\<rparr>,
               pl_prompt = Some ''a cat'', pl_image = None, pl_video = None\<rparr>"
  let ?gv = "\<lparr>video = Some (sampleVideo ''a'')\<rparr>"
  let ?unavailable = "\<lparr>ok = False, status = 503, statusText = ''Service Unavailable'',
               res_blob = Inr sampleBlob\<rparr>"
  let ?e1 = "scripted noContent (Inr (completed (Some [\<lparr>video = Some (sampleVideo ''a'')\<rparr>]))) []
         (Inr notFoundResponse)"
  let ?e2 = "(scripted noContent (Inr (completed (Some [\<lparr>video = Some (sampleVideo ''a'')\<rparr>]))) []
         (Inr \<lparr>ok = False, status = 503, statusText = ''Service Unavailable'',
               res_blob = Inr sampleBlob\<rparr>))\<lparr>API_KEY := Some ''SECRET-2''\<rparr>"
  let ?u = "''https://host/files/a%3Adownload?alt=media''"
  let ?url = "''https://host/files/a:download?alt=media''"
  have r: "op_response (completed (Some [?gv])) = Some \<lparr>generatedVideos = Some [?gv]\<rparr>"
    by (simp add: completed_def)
  have g: "generatedVideos \<lparr>generatedVideos = Some [?gv]\<rparr> = Some (?gv # [])"
    by simp
  have v: "video ?gv = Some (sampleVideo ''a'')" by simp
  have u: "uri (sampleVideo ''a'') = Some ?u"
    by (simp add: sampleVideo_def)
  have n: "?u \<noteq> []" by simp
  have s1: "generateVideos ?e1 [] ?pl = Inr (completed (Some [?gv]))"
    by (simp add: scripted_def)
  have l1: "poll ?e1 [GenerateVideos ?pl] (completed (Some [?gv])) =
              Some (Inr (completed (Some [?gv])), [GenerateVideos ?pl])"
    by (simp add: poll.simps completed_def)
  have d1: "decodeURIComponent ?e1 ?u = Inr ?url"
    by (simp add: scripted_def sample_uri_decoded del: percentDecode.simps)
  have k1: "API_KEY ?e1 = Some ''KEY''"
    by (simp add: scripted_def)
  have f1: "fetch ?e1 [GenerateVideos ?pl] (?url @ ''&key='' @ ''KEY'') = Inr notFoundResponse \<and>
            \<not> ok notFoundResponse"
    by (simp add: scripted_def notFoundResponse_def)
  have s2: "generateVideos ?e2 [] ?pl = Inr (completed (Some [?gv]))"
    by (simp add: scripted_def)
  have l2: "poll ?e2 [GenerateVideos ?pl] (completed (Some [?gv])) =
              Some (Inr (completed (Some [?gv])), [GenerateVideos ?pl])"
    by (simp add: poll.simps completed_def)
  have d2: "decodeURIComponent ?e2 ?u = Inr ?url"
    by (simp add: scripted_def sample_uri_decoded del: percentDecode.simps)
  have c2: "newGoogleGenAI ?e2 (API_KEY ?e2) = None"
    by (simp add: scripted_def browserSDK_def)
  have k2: "API_KEY ?e2 = Some ''SECRET-2''"
    by simp
  have f2: "fetch ?e2 [GenerateVideos ?pl] (?url @ ''&key='' @ ''SECRET-2'') = Inr ?unavailable \<and>
            \<not> ok ?unavailable"
    by (simp add: scripted_def)
  from fetch_decoded_uri_with_key [OF sample_payload s1 l1 r g v u n d1 sample_client k1]
  obtain r1 where run1: "generateVideo ?e1 (sampleParams TEXT_TO_VIDEO) =
        Some (r1, [GenerateVideos ?pl] @ [Fetch (?url @ ''&key='' @ ''KEY'')])"
    and all1: "\<forall>res. fetch ?e1 [GenerateVideos ?pl] (?url @ ''&key='' @ ''KEY'') = Inr res \<and>
                \<not> ok res \<longrightarrow>
                (\<exists>digits.
                   r1 = Inl (Error (''Failed to fetch video: '' @ digits @ '' ''
                                   @ statusText res)) \<and>
                   digits \<noteq> [] \<and> list_all isDigit digits \<and>
                   readNat digits = status res \<and>
                   (hd digits = CHR ''0'' \<longrightarrow> digits = ''0''))"
    by blast
  from all1 f1 obtain digits1 where
    m1: "r1 = Inl (Error (''Failed to fetch video: '' @ digits1 @ '' ''
                          @ statusText notFoundResponse))"
      "list_all isDigit digits1" "readNat digits1 = status notFoundResponse"
    by blast
  from fetch_decoded_uri_with_key [OF sample_payload s2 l2 r g v u n d2 c2 k2]
  obtain r2 where run2: "generateVideo ?e2 (sampleParams TEXT_TO_VIDEO) =
        Some (r2, [GenerateVideos ?pl] @ [Fetch (?url @ ''&key='' @ ''SECRET-2'')])"
    and all2: "\<forall>res. fetch ?e2 [GenerateVideos ?pl] (?url @ ''&key='' @ ''SECRET-2'') = Inr res \<and>
                \<not> ok res \<longrightarrow>
                (\<exists>digits.
                   r2 = Inl (Error (''Failed to fetch video: '' @ digits @ '' ''
                                   @ statusText res)) \<and>
                   digits \<noteq> [] \<and> list_all isDigit digits \<and>
                   readNat digits = status res \<and>
                   (hd digits = CHR ''0'' \<longrightarrow> digits = ''0''))"
    by blast
  from all2 f2 obtain digits2 where
    m2: "r2 = Inl (Error (''Failed to fetch video: '' @ digits2 @ '' ''
                          @ statusText ?unavailable))"
      "list_all isDigit digits2" "readNat digits2 = status ?unavailable"
    by blast
  have a1: "\<exists>r. generateVideo ?e1 (sampleParams TEXT_TO_VIDEO) =
          Some (r, [GenerateVideos ?pl,
                    Fetch ''https://host/files/a:download?alt=media&key=KEY'']) \<and>
        (\<exists>digits. r = Inl (Error (''Failed to fetch video: '' @ digits @ '' Not Found'')) \<and>
                  list_all isDigit digits \<and> readNat digits = 404)"
    using run1 m1 by (auto simp add: notFoundResponse_def)
  have a2: "\<exists>r. generateVideo ?e2 (sampleParams TEXT_TO_VIDEO) =
          Some (r, [GenerateVideos ?pl,
                    Fetch ''https://host/files/a:download?alt=media&key=SECRET-2'']) \<and>
        (\<exists>digits. r = Inl (Error (''Failed to fetch video: '' @ digits
                                   @ '' Service Unavailable'')) \<and>
                  list_all isDigit digits \<and> readNat digits = 503)"
    using run2 m2 by auto
  have b1: "generateVideo ?e1 (sampleParams TEXT_TO_VIDEO) =
     Some (Inl (Error ''Failed to fetch video: 404 Not Found''),
           [GenerateVideos ?pl,
            Fetch ''https://host/files/a:download?alt=media&key=KEY''])"
    using generateVideo_polled [OF sample_client sample_payload s1 l1] d1 k1 f1
    by (simp add: finish_def completed_def sampleVideo_def template_def notFoundResponse_def
        showNat.simps digit_def del: percentDecode.simps)
  have b2: "generateVideo ?e2 (sampleParams TEXT_TO_VIDEO) =
     Some (Inl (Error ''Failed to fetch video: 503 Service Unavailable''),
           [GenerateVideos ?pl,
            Fetch ''https://host/files/a:download?alt=media&key=SECRET-2''])"
    using generateVideo_polled [OF c2 sample_payload s2 l2] d2 k2 f2
    by (simp add: finish_def completed_def sampleVideo_def template_def
        showNat.simps digit_def del: percentDecode.simps)
  from a1 b1 a2 b2 show ?thesis by blast
qed

text \<open>
  Claim C6. When the submission answers with an operation that is not done, the first
  status re-fetch with one that is not done, and the second with a completed operation
  whose first generated video has a URI, and the binary fetch succeeds, then
  \<open>generateVideo\<close> fulfils with that first video, whatever other videos follow it in
  the response, and the run holds exactly two status re-fetches.
\<close>

theorem three_responses:
  assumes "buildPayload params = Inr pl" and "generateVideos e [] pl = Inr op0"
    and "\<not> op_done op0"
    and "getVideosOperation e [GenerateVideos pl, Sleep 10000] op0 = Inr op1"
    and "\<not> op_done op1"
    and "getVideosOperation e [GenerateVideos pl, Sleep 10000, GetVideosOperation op0,
           Sleep 10000] op1 = Inr op2"
    and "op_done op2"
    and "op_response op2 = Some resp" and "generatedVideos resp = Some (gv # others)"
    and "video gv = Some v" and "uri v = Some u" and "u \<noteq> []"
    and "decodeURIComponent e u = Inr url"
    and "fetch e [GenerateVideos pl, Sleep 10000, GetVideosOperation op0, Sleep 10000,
           GetVideosOperation op1] (url @ ''&key='' @ template (API_KEY e)) = Inr res"
    and "ok res" and "res_blob res = Inr videoBlob"
    and client: "newGoogleGenAI e (API_KEY e) = None"
  shows "generateVideo e params =
           Some (Inr \<lparr>out_objectUrl = createObjectURL e videoBlob, out_blob = videoBlob,
                      out_uri = url, out_video = v\<rparr>,
                 [GenerateVideos pl, Sleep 10000, GetVideosOperation op0, Sleep 10000,
                  GetVideosOperation op1, Fetch (url @ ''&key='' @ template (API_KEY e))]) \<and>
         length (filter isRefetch
                 [GenerateVideos pl, Sleep 10000, GetVideosOperation op0, Sleep 10000,
                  GetVideosOperation op1, Fetch (url @ ''&key='' @ template (API_KEY e))]) = 2"
proof -
  have l2: "poll e [GenerateVideos pl, Sleep 10000, GetVideosOperation op0, Sleep 10000,
              GetVideosOperation op1] op2 =
            Some (Inr op2, [GenerateVideos pl, Sleep 10000, GetVideosOperation op0, Sleep 10000,
              GetVideosOperation op1])"
    using assms(7) by (subst poll.simps) simp
  have l1: "poll e [GenerateVideos pl, Sleep 10000, GetVideosOperation op0] op1 =
            Some (Inr op2, [GenerateVideos pl, Sleep 10000, GetVideosOperation op0, Sleep 10000,
              GetVideosOperation op1])"
    using assms(5,6) l2 by (subst poll.simps) simp
  have l0: "poll e [GenerateVideos pl] op0 =
            Some (Inr op2, [GenerateVideos pl, Sleep 10000, GetVideosOperation op0, Sleep 10000,
              GetVideosOperation op1])"
    using assms(3,4) l1 by (subst poll.simps) simp
  have run: "generateVideo e params =
     Some (finish e [GenerateVideos pl, Sleep 10000, GetVideosOperation op0, Sleep 10000,
              GetVideosOperation op1] op2)"
    using client assms(1,2) l0 by (rule generateVideo_polled)
  show ?thesis unfolding run using assms(8-16)
    by (simp add: finish_def Let_def)
qed

theorem three_responses_witness:
  "generateVideo (scripted noContent (Inr running)
         [Inr running,
          Inr (completed (Some [\<lparr>video = Some (sampleVideo ''a'')\<rparr>,
                                 \<lparr>video = Some (sampleVideo ''b'')\<rparr>]))]
         (Inr okResponse))
       (sampleParams TEXT_TO_VIDEO) =
     Some (Inr \<lparr>out_objectUrl = ''blob:MP4'', out_blob = sampleBlob,
                out_uri = ''https://host/files/a:download?alt=media'',
                out_video = sampleVideo ''a''\<rparr>,
           [GenerateVideos \<lparr>pl_model = ''veo-3.1-fast-generate-preview'',
               pl_config = \<lparr>numberOfVideos = 1, cfg_resolution = ''720p'',
                 cfg_aspectRatio = Some ''16:9'', cfg_lastFrame = None,
                 cfg_referenceImages = None\<rparr>,
               pl_prompt = Some ''a cat'', pl_image = None, pl_video = None\<rparr>,
            Sleep 10000, GetVideosOperation running,
            Sleep 10000, GetVideosOperation running,
            Fetch ''https://host/files/a:download?alt=media&key=KEY''])"
proof -
  let ?pl = "\<lparr>pl_model = ''veo-3.1-fast-generate-preview'',
               pl_config = \<lparr>numberOfVideos = 1, cfg_resolution = ''720p'',
                 cfg_aspectRatio = Some ''16:9'', cfg_lastFrame = None,
                 cfg_referenceImages = None\<rparr>,
               pl_prompt = Some ''a cat'', pl_image = None, pl_video = None\<rparr>"
  let ?ga = "\<lparr>video = Some (sampleVideo ''a'')\<rparr>"
  let ?gb = "\<lparr>video = Some (sampleVideo ''b'')\<rparr>"
  let ?e = "scripted noContent (Inr running) [Inr running, Inr (completed (Some [?ga, ?gb]))]
              (Inr okResponse)"
  have s: "generateVideos ?e [] ?pl = Inr running"
    by (simp add: scripted_def)
  have d0: "\<not> op_done running" by (simp add: running_def)
  have p1: "getVideosOperation ?e [GenerateVideos ?pl, Sleep 10000] running = Inr running"
    by (simp add: scripted_def)
  have p2: "getVideosOperation ?e [GenerateVideos ?pl, Sleep 10000, GetVideosOperation running,
              Sleep 10000] running = Inr (completed (Some [?ga, ?gb]))"
    by (simp add: scripted_def)
  have d2: "op_done (completed (Some [?ga, ?gb]))" by (simp add: completed_def)
  have r: "op_response (completed (Some [?ga, ?gb])) = Some \<lparr>generatedVideos = Some [?ga, ?gb]\<rparr>"
    by (simp add: completed_def)
  have g: "generatedVideos \<lparr>generatedVideos = Some [?ga, ?gb]\<rparr> = Some (?ga # [?gb])"
    by simp
  have v: "video ?ga = Some (sampleVideo ''a'')" by simp
  have u: "uri (sampleVideo ''a'') = Some ''https://host/files/a%3Adownload?alt=media''"
    by (simp add: sampleVideo_def)
  have n: "''https://host/files/a%3Adownload?alt=media'' \<noteq> []" by simp
  have d: "decodeURIComponent ?e ''https://host/files/a%3Adownload?alt=media'' =
             Inr ''https://host/files/a:download?alt=media''"
    by (simp add: scripted_def sample_uri_decoded del: percentDecode.simps)
  have k: "template (API_KEY ?e) = ''KEY''"
    by (simp add: scripted_def template_def)
  have f: "fetch ?e [GenerateVideos ?pl, Sleep 10000, GetVideosOperation running, Sleep 10000,
             GetVideosOperation running]
             (''https://host/files/a:download?alt=media'' @ ''&key='' @ template (API_KEY ?e)) =
             Inr okResponse"
    by (simp add: scripted_def)
  have o: "ok okResponse" "res_blob okResponse = Inr sampleBlob"
    by (simp_all add: okResponse_def)
  have c: "createObjectURL ?e sampleBlob = ''blob:MP4''"
    by (simp add: scripted_def sampleBlob_def)
  from three_responses [OF sample_payload s d0 p1 d0 p2 d2 r g v u n d f o sample_client] k c
  show ?thesis by simp
qed

section \<open>Failures of the remote calls\<close>

text \<open>
  A rejected submission, a rejected first status re-fetch and a rejected binary fetch
  leave \<open>generateVideo\<close> as they were thrown, for every request and every service.
\<close>

lemma rejected_submission_propagates:
  assumes "newGoogleGenAI e (API_KEY e) = None" and "buildPayload params = Inr pl"
    and "generateVideos e [] pl = Inl x"
  shows "generateVideo e params = Some (Inl x, [GenerateVideos pl])"
  using assms by (simp add: generateVideo_def)

lemma rejected_refetch_propagates:
  assumes "newGoogleGenAI e (API_KEY e) = None" and "buildPayload params = Inr pl"
    and "generateVideos e [] pl = Inr op0" and "\<not> op_done op0"
    and "getVideosOperation e [GenerateVideos pl, Sleep 10000] op0 = Inl x"
  shows "generateVideo e params =
           Some (Inl x, [GenerateVideos pl, Sleep 10000, GetVideosOperation op0])"
proof -
  have "poll e [GenerateVideos pl] op0 =
          Some (Inl x, [GenerateVideos pl, Sleep 10000, GetVideosOperation op0])"
    using assms(4,5) by (subst poll.simps) simp
  with assms(1-3) show ?thesis by (simp add: generateVideo_def)
qed

lemma rejected_fetch_propagates:
  assumes "newGoogleGenAI e (API_KEY e) = None" and "buildPayload params = Inr pl"
    and "generateVideos e [] pl = Inr op0"
    and "poll e [GenerateVideos pl] op0 = Some (Inr opd, tr)"
    and "op_response opd = Some resp" and "generatedVideos resp = Some (gv # rest)"
    and "video gv = Some v" and "uri v = Some u" and "u \<noteq> []"
    and "decodeURIComponent e u = Inr url"
    and "fetch e tr (url @ ''&key='' @ template (API_KEY e)) = Inl x"
  shows "generateVideo e params =
           Some (Inl x, tr @ [Fetch (url @ ''&key='' @ template (API_KEY e))])"
proof -
  have "generateVideo e params = Some (finish e tr opd)"
    using assms(1-4) by (rule generateVideo_polled)
  with assms(5-11) show ?thesis by (simp add: finish_def Let_def)
qed

text \<open>
  Claim C1 asks that a failure of the submission, of a status re-fetch or of the binary
  fetch reach the caller as an error whose message is ``Failed to generate video: ''
  followed by the original message. \<open>generateVideo\<close> has no \<open>try\<close>, unlike
  \<open>generateAudio\<close> and \<open>enhancePrompt\<close>: at each of these three inputs the promise is
  rejected with the error of the failed call itself, and its message carries no prefix.
\<close>

theorem generateVideo_rethrows_unwrapped:
  "generateVideo (scripted noContent (Inl (Error ''Quota exceeded.'')) [] (Inr okResponse))
       (sampleParams TEXT_TO_VIDEO) =
     Some (Inl (Error ''Quota exceeded.''), [GenerateVideos \<lparr>pl_model = ''veo-3.1-fast-generate-preview'',
               pl_config = \<lparr>numberOfVideos = 1, cfg_resolution = ''720p'',
                 cfg_aspectRatio = Some ''16:9'', cfg_lastFrame = None,
                 cfg_referenceImages = None\<rparr>,
               pl_prompt = Some ''a cat'', pl_image = None, pl_video = None\<rparr>]) \<and>
   generateVideo (scripted noContent (Inr running)
         [Inr running, Inl (Error ''Deadline exceeded.'')] (Inr okResponse))
       (sampleParams TEXT_TO_VIDEO) =
     Some (Inl (Error ''Deadline exceeded.''),
           [GenerateVideos \<lparr>pl_model = ''veo-3.1-fast-generate-preview'',
               pl_config = \<lparr>numberOfVideos = 1, cfg_resolution = ''720p'',
                 cfg_aspectRatio = Some ''16:9'', cfg_lastFrame = None,
                 cfg_referenceImages = None\<rparr>,
               pl_prompt = Some ''a cat'', pl_image = None, pl_video = None\<rparr>,
            Sleep 10000, GetVideosOperation running,
            Sleep 10000, GetVideosOperation running]) \<and>
   generateVideo (scripted noContent
         (Inr (completed (Some [\<lparr>video = Some (sampleVideo ''a'')\<rparr>]))) []
         (Inl (Error ''Failed to fetch'')))
       (sampleParams TEXT_TO_VIDEO) =
     Some (Inl (Error ''Failed to fetch''),
           [GenerateVideos \<lparr>pl_model = ''veo-3.1-fast-generate-preview'',
               pl_config = \<lparr>numberOfVideos = 1, cfg_resolution = ''720p'',
                 cfg_aspectRatio = Some ''16:9'', cfg_lastFrame = None,
                 cfg_referenceImages = None\<rparr>,
               pl_prompt = Some ''a cat'', pl_image = None, pl_video = None\<rparr>,
            Fetch ''https://host/files/a:download?alt=media&key=KEY''])"
proof (intro conjI)
  let ?pl = "\<lparr>pl_model = ''veo-3.1-fast-generate-preview'',
               pl_config = \<lparr>numberOfVideos = 1, cfg_resolution = ''720p'',
                 cfg_aspectRatio = Some ''16:9'', cfg_lastFrame = None,
                 cfg_referenceImages = None\<rparr>,
               pl_prompt = Some ''a cat'', pl_image = None, pl_video = None\<rparr>"
  show "generateVideo (scripted noContent (Inl (Error ''Quota exceeded.'')) [] (Inr okResponse))
       (sampleParams TEXT_TO_VIDEO) =
     Some (Inl (Error ''Quota exceeded.''), [GenerateVideos ?pl])"
    using sample_client [of noContent "Inl (Error ''Quota exceeded.'')" "[]" "Inr okResponse"]
    by (simp add: generateVideo_def sample_payload) (simp add: scripted_def)
next
  let ?pl = "\<lparr>pl_model = ''veo-3.1-fast-generate-preview'',
               pl_config = \<lparr>numberOfVideos = 1, cfg_resolution = ''720p'',
                 cfg_aspectRatio = Some ''16:9'', cfg_lastFrame = None,
                 cfg_referenceImages = None\<rparr>,
               pl_prompt = Some ''a cat'', pl_image = None, pl_video = None\<rparr>"
  let ?e = "scripted noContent (Inr running)
         [Inr running, Inl (Error ''Deadline exceeded.'')] (Inr okResponse)"
  have l: "poll ?e [GenerateVideos ?pl] running =
             Some (Inl (Error ''Deadline exceeded.''),
                   [GenerateVideos ?pl, Sleep 10000, GetVideosOperation running,
                    Sleep 10000, GetVideosOperation running])"
    by (simp add: poll.simps scripted_def running_def)
  have s: "generateVideos ?e [] ?pl = Inr running"
    by (simp add: scripted_def)
  show "generateVideo ?e (sampleParams TEXT_TO_VIDEO) =
     Some (Inl (Error ''Deadline exceeded.''),
           [GenerateVideos ?pl,
            Sleep 10000, GetVideosOperation running,
            Sleep 10000, GetVideosOperation running])"
    using sample_client [of noContent "Inr running"
            "[Inr running, Inl (Error ''Deadline exceeded.'')]" "Inr okResponse"] s l
    by (simp add: generateVideo_def sample_payload)
next
  let ?pl = "\<lparr>pl_model = ''veo-3.1-fast-generate-preview'',
               pl_config = \<lparr>numberOfVideos = 1, cfg_resolution = ''720p'',
                 cfg_aspectRatio = Some ''16:9'', cfg_lastFrame = None,
                 cfg_referenceImages = None\<rparr>,
               pl_prompt = Some ''a cat'', pl_image = None, pl_video = None\<rparr>"
  let ?gv = "\<lparr>video = Some (sampleVideo ''a'')\<rparr>"
  let ?e = "scripted noContent (Inr (completed (Some [?gv]))) [] (Inl (Error ''Failed to fetch''))"
  have s: "generateVideos ?e [] ?pl = Inr (completed (Some [?gv]))"
    by (simp add: scripted_def)
  have l: "poll ?e [GenerateVideos ?pl] (completed (Some [?gv])) =
              Some (Inr (completed (Some [?gv])), [GenerateVideos ?pl])"
    by (simp add: poll.simps completed_def)
  have d: "decodeURIComponent ?e ''https://host/files/a%3Adownload?alt=media'' =
             Inr ''https://host/files/a:download?alt=media''"
    by (simp add: scripted_def sample_uri_decoded del: percentDecode.simps)
  have k: "API_KEY ?e = Some ''KEY''"
    by (simp add: scripted_def)
  have f: "fetch ?e [GenerateVideos ?pl] ''https://host/files/a:download?alt=media&key=KEY'' =
             Inl (Error ''Failed to fetch'')"
    by (simp add: scripted_def)
  show "generateVideo ?e (sampleParams TEXT_TO_VIDEO) =
     Some (Inl (Error ''Failed to fetch''),
           [GenerateVideos ?pl,
            Fetch ''https://host/files/a:download?alt=media&key=KEY''])"
    using generateVideo_polled [OF sample_client sample_payload s l] d k f
    by (simp add: finish_def completed_def sampleVideo_def template_def
        del: percentDecode.simps)
qed

section \<open>Properties of \<open>enhancePrompt\<close> and \<open>generateAudio\<close>\<close>

text \<open>\<open>trim\<close> leaves nothing exactly when every character is white space.\<close>

lemma trim_empty_iff: "trim s = [] \<longleftrightarrow> list_all isWhiteSpace s"
proof -
  have "trim s = [] \<longleftrightarrow> (\<forall>c \<in> set (dropWhile isWhiteSpace s). isWhiteSpace c)"
    by (simp add: trim_def dropWhile_eq_Nil_conv)
  also have "\<dots> \<longleftrightarrow> dropWhile isWhiteSpace s = []"
  proof
    assume a: "\<forall>c \<in> set (dropWhile isWhiteSpace s). isWhiteSpace c"
    show "dropWhile isWhiteSpace s = []"
    proof (rule ccontr)
      assume ne: "dropWhile isWhiteSpace s \<noteq> []"
      then have "\<not> isWhiteSpace (hd (dropWhile isWhiteSpace s))"
        by (rule hd_dropWhile)
      moreover from ne have "hd (dropWhile isWhiteSpace s) \<in> set (dropWhile isWhiteSpace s)"
        by simp
      ultimately show False using a by blast
    qed
  next
    assume "dropWhile isWhiteSpace s = []"
    then show "\<forall>c \<in> set (dropWhile isWhiteSpace s). isWhiteSpace c"
      by (simp del: dropWhile_eq_Nil_conv)
  qed
  also have "\<dots> \<longleftrightarrow> list_all isWhiteSpace s"
    by (simp only: dropWhile_eq_Nil_conv list_all_iff)
  finally show ?thesis .
qed

text \<open>
  Claim C8. On an empty or white-space-only input \<open>enhancePrompt\<close> rejects with
  ``Prompt cannot be empty.'' and its trace is empty, whatever the environment; on every
  other input, once the client is constructed, the trace is the one content request for
  that input.
\<close>

theorem enhancePrompt_fail_fast:
  "(whitespaceOnly p \<longrightarrow>
      enhancePrompt e p = (Inl (Error ''Prompt cannot be empty.''), [])) \<and>
   (\<not> whitespaceOnly p \<and> newGoogleGenAI e (API_KEY e) = None \<longrightarrow>
      snd (enhancePrompt e p) =
        [GenerateContent (TextRequest ''gemini-2.5-flash''
           (utf16 ''User prompt: '' @ [0x22] @ p @ [0x22]) systemInstruction (8 / 10))])"
  by (simp add: enhancePrompt_def whitespaceOnly_def trim_empty_iff Let_def)

theorem enhancePrompt_fail_fast_witness:
  "whitespaceOnly [] \<and>
   enhancePrompt (scripted noContent (Inr running) [] (Inr okResponse)) [] =
     (Inl (Error ''Prompt cannot be empty.''), []) \<and>
   whitespaceOnly
       [0x09, 0x0A, 0x0B, 0x0C, 0x0D, 0x20, 0xA0, 0x1680, 0x2000, 0x2001, 0x2002, 0x2003,
        0x2004, 0x2005, 0x2006, 0x2007, 0x2008, 0x2009, 0x200A, 0x2028, 0x2029, 0x202F,
        0x205F, 0x3000, 0xFEFF] \<and>
   enhancePrompt (scripted noContent (Inr running) [] (Inr okResponse))
       [0x09, 0x0A, 0x0B, 0x0C, 0x0D, 0x20, 0xA0, 0x1680, 0x2000, 0x2001, 0x2002, 0x2003,
        0x2004, 0x2005, 0x2006, 0x2007, 0x2008, 0x2009, 0x200A, 0x2028, 0x2029, 0x202F,
        0x205F, 0x3000, 0xFEFF] =
     (Inl (Error ''Prompt cannot be empty.''), []) \<and>
   newGoogleGenAI (scripted noContent (Inr running) [] (Inr okResponse))
     (API_KEY (scripted noContent (Inr running) [] (Inr okResponse))) = None \<and>
   \<not> whitespaceOnly [0x20, 0x63, 0x61, 0x74, 0x20] \<and>
   snd (enhancePrompt (scripted noContent (Inr running) [] (Inr okResponse)) [0x20, 0x63, 0x61, 0x74, 0x20]) =
     [GenerateContent (TextRequest ''gemini-2.5-flash''
        (utf16 ''User prompt: '' @ [0x22] @ [0x20, 0x63, 0x61, 0x74, 0x20] @ [0x22])
        systemInstruction (8 / 10))] \<and>
   \<not> whitespaceOnly [0x200B] \<and>
   snd (enhancePrompt (scripted noContent (Inr running) [] (Inr okResponse)) [0x200B]) =
     [GenerateContent (TextRequest ''gemini-2.5-flash''
        (utf16 ''User prompt: '' @ [0x22] @ [0x200B] @ [0x22])
        systemInstruction (8 / 10))] \<and>
   \<not> whitespaceOnly [0x85] \<and>
   snd (enhancePrompt (scripted noContent (Inr running) [] (Inr okResponse)) [0x85]) =
     [GenerateContent (TextRequest ''gemini-2.5-flash''
        (utf16 ''User prompt: '' @ [0x22] @ [0x85] @ [0x22])
        systemInstruction (8 / 10))] \<and>
   \<not> whitespaceOnly [0x180E] \<and>
   snd (enhancePrompt (scripted noContent (Inr running) [] (Inr okResponse)) [0x180E]) =
     [GenerateContent (TextRequest ''gemini-2.5-flash''
        (utf16 ''User prompt: '' @ [0x22] @ [0x180E] @ [0x22])
        systemInstruction (8 / 10))]"
  using enhancePrompt_fail_fast [of "[]"
       "scripted noContent (Inr running) [] (Inr okResponse)"]
    enhancePrompt_fail_fast [of "[0x09, 0x0A, 0x0B, 0x0C, 0x0D, 0x20, 0xA0, 0x1680, 0x2000, 0x2001, 0x2002, 0x2003, 0x2004, 0x2005, 0x2006, 0x2007, 0x2008, 0x2009, 0x200A, 0x2028, 0x2029, 0x202F, 0x205F, 0x3000, 0xFEFF]"
       "scripted noContent (Inr running) [] (Inr okResponse)"]
    enhancePrompt_fail_fast [of "[0x20, 0x63, 0x61, 0x74, 0x20]"
       "scripted noContent (Inr running) [] (Inr okResponse)"]
    enhancePrompt_fail_fast [of "[0x200B]"
       "scripted noContent (Inr running) [] (Inr okResponse)"]
    enhancePrompt_fail_fast [of "[0x85]"
       "scripted noContent (Inr running) [] (Inr okResponse)"]
    enhancePrompt_fail_fast [of "[0x180E]"
       "scripted noContent (Inr running) [] (Inr okResponse)"]
  by (simp add: whitespaceOnly_def isWhiteSpace_def scripted_def browserSDK_def)

text \<open>The chain of optional accesses in \<open>generateAudio\<close>, case by case.\<close>

lemma audioOfResponse_cases:
  "audioOfResponse response =
     (case candidates response of
        None \<Rightarrow> Inl (Error ''Audio data not found in the API response.'')
      | Some [] \<Rightarrow> Inl (Error ''Audio data not found in the API response.'')
      | Some (c # _) \<Rightarrow>
          (case content c of
             None \<Rightarrow> Inl (Error ''Audio data not found in the API response.'')
           | Some ct \<Rightarrow>
               (case parts ct of
                  None \<Rightarrow> Inl (Error ''Audio data not found in the API response.'')
                | Some [] \<Rightarrow> Inl (Error ''Audio data not found in the API response.'')
                | Some (p # _) \<Rightarrow>
                    (case inlineData p of
                       None \<Rightarrow> Inl (Error ''Audio data not found in the API response.'')
                     | Some d \<Rightarrow>
                         if truthy (inl_data d) \<and> truthy (inl_mimeType d)
                         then Inr \<lparr>audio_objectUrl = ''data:'' @ template (inl_mimeType d)
                                     @ '';base64,'' @ template (inl_data d)\<rparr>
                         else Inl (Error ''Audio data not found in the API response.'')))))"
  by (simp add: audioOfResponse_def first_js_def truthy_def Let_def
      split: option.splits list.splits)

text \<open>
  Claim C10. Once the client is constructed, whatever the parameters, the trace of
  \<open>generateAudio\<close> is the one speech request built from them: no input is rejected
  before the call. A rejected call is re-thrown under the audio prefix. When the call
  succeeds, \<open>generateAudio\<close> fulfils exactly when the first part of the first candidate
  carries inline data with non-empty data and MIME type, and otherwise rejects with the
  wrapped ``Audio data not found in the API response.''
\<close>

theorem generateAudio_no_precondition:
  assumes client: "newGoogleGenAI e (API_KEY e) = None"
  shows "snd (generateAudio e params) =
     [GenerateContent (SpeechRequest ''gemini-2.5-flash-preview-tts'' (audio_prompt params)
        (voice params))] \<and>
   (\<forall>m. generateContent e [] (SpeechRequest ''gemini-2.5-flash-preview-tts''
            (audio_prompt params) (voice params)) = Inl (Error m) \<longrightarrow>
      fst (generateAudio e params) = Inl (Error (''Failed to generate audio: '' @ m))) \<and>
   (\<forall>d. generateContent e [] (SpeechRequest ''gemini-2.5-flash-preview-tts''
            (audio_prompt params) (voice params)) = Inl (NonError d) \<longrightarrow>
      fst (generateAudio e params) =
        Inl (Error ''Failed to generate audio: An unknown error occurred.'')) \<and>
   (\<forall>response. generateContent e [] (SpeechRequest ''gemini-2.5-flash-preview-tts''
            (audio_prompt params) (voice params)) = Inr response \<longrightarrow>
      (if \<exists>c cs ct p ps d b m.
             candidates response = Some (c # cs) \<and> content c = Some ct \<and>
             parts ct = Some (p # ps) \<and> inlineData p = Some d \<and>
             inl_data d = Some b \<and> b \<noteq> [] \<and> inl_mimeType d = Some m \<and> m \<noteq> []
       then \<exists>r. fst (generateAudio e params) = Inr r
       else fst (generateAudio e params) =
              Inl (Error ''Failed to generate audio: Audio data not found in the API response.'')))"
proof (intro conjI allI impI)
  show "snd (generateAudio e params) =
     [GenerateContent (SpeechRequest ''gemini-2.5-flash-preview-tts'' (audio_prompt params)
        (voice params))]"
    using client by (simp add: generateAudio_def Let_def)
next
  fix m
  assume "generateContent e [] (SpeechRequest ''gemini-2.5-flash-preview-tts''
            (audio_prompt params) (voice params)) = Inl (Error m)"
  then show "fst (generateAudio e params) = Inl (Error (''Failed to generate audio: '' @ m))"
    using client by (simp add: generateAudio_def errorMessage_def Let_def)
next
  fix d
  assume "generateContent e [] (SpeechRequest ''gemini-2.5-flash-preview-tts''
            (audio_prompt params) (voice params)) = Inl (NonError d)"
  then show "fst (generateAudio e params) =
        Inl (Error ''Failed to generate audio: An unknown error occurred.'')"
    using client by (simp add: generateAudio_def errorMessage_def Let_def)
next
  fix response
  assume a: "generateContent e [] (SpeechRequest ''gemini-2.5-flash-preview-tts''
            (audio_prompt params) (voice params)) = Inr response"
  have run: "fst (generateAudio e params) =
     (case audioOfResponse response of
        Inl error \<Rightarrow> Inl (Error (''Failed to generate audio: '' @ errorMessage error))
      | Inr r \<Rightarrow> Inr r)"
    using a client by (simp add: generateAudio_def Let_def)
  show "if \<exists>c cs ct p ps d b m.
             candidates response = Some (c # cs) \<and> content c = Some ct \<and>
             parts ct = Some (p # ps) \<and> inlineData p = Some d \<and>
             inl_data d = Some b \<and> b \<noteq> [] \<and> inl_mimeType d = Some m \<and> m \<noteq> []
       then \<exists>r. fst (generateAudio e params) = Inr r
       else fst (generateAudio e params) =
              Inl (Error ''Failed to generate audio: Audio data not found in the API response.'')"
    unfolding run audioOfResponse_cases
    by (auto simp add: truthy_def errorMessage_def split: option.splits list.splits)
qed

theorem generateAudio_no_precondition_witness:
  "newGoogleGenAI (scripted (Inl (NonError ''timeout'')) (Inr running) [] (Inr okResponse))
     (API_KEY (scripted (Inl (NonError ''timeout'')) (Inr running) [] (Inr okResponse))) =
     None \<and>
   snd (generateAudio (scripted (Inl (NonError ''timeout'')) (Inr running) [] (Inr okResponse))
          \<lparr>audio_prompt = [0x20, 0x3000, 0xFEFF], voice = ''Zephyr''\<rparr>) =
     [GenerateContent (SpeechRequest ''gemini-2.5-flash-preview-tts'' [0x20, 0x3000, 0xFEFF]
        ''Zephyr'')] \<and>
   fst (generateAudio (scripted (Inl (NonError ''timeout'')) (Inr running) [] (Inr okResponse))
          \<lparr>audio_prompt = [0x20, 0x3000, 0xFEFF], voice = ''Zephyr''\<rparr>) =
     Inl (Error ''Failed to generate audio: An unknown error occurred.'') \<and>
   fst (generateAudio (scripted (Inl (Error ''API key not valid.'')) (Inr running) []
            (Inr okResponse))
          \<lparr>audio_prompt = utf16 ''hello'', voice = ''Zephyr''\<rparr>) =
     Inl (Error ''Failed to generate audio: API key not valid.'') \<and>
   snd (generateAudio
          (scripted (Inr (audioResponse (Some [audioCandidate (Some ''QUJD'') (Some ''audio/L16'')])))
             (Inr running) [] (Inr okResponse))
          \<lparr>audio_prompt = [], voice = ''Kore''\<rparr>) =
     [GenerateContent (SpeechRequest ''gemini-2.5-flash-preview-tts'' [] ''Kore'')] \<and>
   (\<exists>r. fst (generateAudio
          (scripted (Inr (audioResponse (Some [audioCandidate (Some ''QUJD'') (Some ''audio/L16'')])))
             (Inr running) [] (Inr okResponse))
          \<lparr>audio_prompt = [], voice = ''Kore''\<rparr>) = Inr r) \<and>
   fst (generateAudio
          (scripted (Inr (audioResponse (Some [audioCandidate (Some ''QUJD'') None])))
             (Inr running) [] (Inr okResponse))
          \<lparr>audio_prompt = utf16 ''hello'', voice = ''Zephyr''\<rparr>) =
     Inl (Error ''Failed to generate audio: Audio data not found in the API response.'')"
  using sample_client [of "Inl (NonError ''timeout'')" "Inr running" "[]" "Inr okResponse"]
        generateAudio_no_precondition
          [OF sample_client,
           of "Inl (NonError ''timeout'')" "Inr running" "[]" "Inr okResponse"
              "\<lparr>audio_prompt = [0x20, 0x3000, 0xFEFF], voice = ''Zephyr''\<rparr>"]
        generateAudio_no_precondition
          [OF sample_client,
           of "Inl (Error ''API key not valid.'')" "Inr running" "[]" "Inr okResponse"
              "\<lparr>audio_prompt = utf16 ''hello'', voice = ''Zephyr''\<rparr>"]
        generateAudio_no_precondition
          [OF sample_client,
           of "Inr (audioResponse (Some [audioCandidate (Some ''QUJD'') (Some ''audio/L16'')]))"
              "Inr running" "[]" "Inr okResponse"
              "\<lparr>audio_prompt = [], voice = ''Kore''\<rparr>"]
        generateAudio_no_precondition
          [OF sample_client,
           of "Inr (audioResponse (Some [audioCandidate (Some ''QUJD'') None]))"
              "Inr running" "[]" "Inr okResponse"
              "\<lparr>audio_prompt = utf16 ''hello'', voice = ''Zephyr''\<rparr>"]
  by (simp add: scripted_def audioResponse_def audioCandidate_def)

text \<open>
  When the constructor of the client throws, each function rejects with what it threw,
  unwrapped, and its trace is empty; \<open>enhancePrompt\<close> tests its input first.
\<close>

lemma client_not_constructed:
  assumes "newGoogleGenAI e (API_KEY e) = Some x"
  shows "generateVideo e params = Some (Inl x, [])"
    and "generateAudio e audioParams = (Inl x, [])"
    and "trim p \<noteq> [] \<Longrightarrow> enhancePrompt e p = (Inl x, [])"
  using assms by (simp_all add: generateVideo_def generateAudio_def enhancePrompt_def)

end
